theory Spec2Isabelle
  imports Complex_Main
begin

section \<open>Python values\<close>

text \<open>
  The values a trade dictionary (\<open>Dict[str, Any]\<close>, or an object of a JSON answer) can hold
  under a key: \<open>None\<close>, a boolean, a number, a string, or a container (a list or a
  dictionary).  Python floats and integers are modelled as real numbers: the limits of
  the floating-point range and precision, and infinities and NaN as values of a
  number, are outside the model.  Strings are ASCII text.
\<close>

datatype pyval = PNone | PBool bool | PNum real | PStr string | PContainer

text \<open>
  A trade dictionary, by the seven keys the code reads; \<open>None\<close> is a missing key.
\<close>

record trade_data =
  td_date :: "pyval option"
  td_action :: "pyval option"
  td_asset :: "pyval option"
  td_quantity :: "pyval option"
  td_price :: "pyval option"
  td_total_value :: "pyval option"
  td_notes :: "pyval option"

subsection \<open>\<open>float()\<close> on a string\<close>

text \<open>
  \<open>float(s)\<close> strips white space and reads
  \<^verbatim>\<open>[sign] (digitpart ["." [digitpart]] | "." digitpart) [("e"|"E") [sign] digitpart]\<close>,
  where a \<open>digitpart\<close> is a run of digits that may have single underscores between
  them, or reads \<open>inf\<close>, \<open>infinity\<close> or \<open>nan\<close> with an optional sign, in any case of
  the letters.  Everything else raises \<open>ValueError\<close>.

  \<open>py_float_str\<close> is the first form, with its value; \<open>None\<close> is every other string.
  \<open>non_finite_str\<close> is the second form, which \<open>float()\<close> reads as an infinity or NaN.
\<close>

definition is_space :: "char \<Rightarrow> bool" where
  "is_space c = (c \<in> set [CHR '' '', CHR 0x09, CHR 0x0A, CHR 0x0B, CHR 0x0C, CHR 0x0D])"

definition strip :: "string \<Rightarrow> string" where
  "strip s = rev (dropWhile is_space (rev (dropWhile is_space s)))"

definition digit_val :: "char \<Rightarrow> nat option" where
  "digit_val c = map_of (zip ''0123456789'' [0, 1, 2, 3, 4, 5, 6, 7, 8, 9]) c"

text \<open>
  \<open>digitpart v k s\<close> reads a digit part from \<open>s\<close>, having read \<open>k\<close> digits of value \<open>v\<close>
  already; it returns the value, the number of digits and the rest of the string.
\<close>

fun digitpart :: "nat \<Rightarrow> nat \<Rightarrow> string \<Rightarrow> nat \<times> nat \<times> string" where
  "digitpart v k [] = (v, k, [])"
| "digitpart v k [c] =
     (case digit_val c of Some d \<Rightarrow> (10 * v + d, Suc k, []) | None \<Rightarrow> (v, k, [c]))"
| "digitpart v k (c # c' # cs) =
     (case digit_val c of
        Some d \<Rightarrow> digitpart (10 * v + d) (Suc k) (c' # cs)
      | None \<Rightarrow>
          (if c = CHR ''_'' \<and> 0 < k
           then (case digit_val c' of
                   Some d \<Rightarrow> digitpart (10 * v + d) (Suc k) cs
                 | None \<Rightarrow> (v, k, c # c' # cs))
           else (v, k, c # c' # cs)))"

definition sign_of :: "string \<Rightarrow> bool \<times> string" where
  "sign_of s =
     (case s of
        [] \<Rightarrow> (False, [])
      | c # cs \<Rightarrow>
          if c = CHR ''-'' then (True, cs) else if c = CHR ''+'' then (False, cs) else (False, s))"

definition exponent :: "string \<Rightarrow> (int \<times> string) option" where
  "exponent s =
     (case s of
        [] \<Rightarrow> Some (0, [])
      | c # cs \<Rightarrow>
          if c = CHR ''e'' \<or> c = CHR ''E''
          then (let (neg, ds) = sign_of cs; (v, k, r) = digitpart 0 0 ds in
                if k = 0 then None else Some (if neg then - int v else int v, r))
          else Some (0, s))"

definition scale10 :: "real \<Rightarrow> int \<Rightarrow> real" where
  "scale10 x n = (if 0 \<le> n then x * 10 ^ nat n else x / 10 ^ nat (- n))"

definition py_float_str :: "string \<Rightarrow> real option" where
  "py_float_str s =
     (let (neg, t1) = sign_of (strip s);
          (iv, ik, t2) = digitpart 0 0 t1;
          (fv, fk, t3) =
             (case t2 of
                [] \<Rightarrow> (0, 0, [])
              | c # cs \<Rightarrow> if c = CHR ''.'' then digitpart 0 0 cs else (0, 0, t2))
      in if ik = 0 \<and> fk = 0 then None
         else
           case exponent t3 of
             None \<Rightarrow> None
           | Some (ex, t4) \<Rightarrow>
               if t4 \<noteq> [] then None
               else
                 let m = real iv + real fv / 10 ^ fk in
                 Some (scale10 (if neg then - m else m) ex))"

definition lower_char :: "char \<Rightarrow> char" where
  "lower_char c =
     (case map_of (zip ''ABCDEFGHIJKLMNOPQRSTUVWXYZ'' ''abcdefghijklmnopqrstuvwxyz'') c of
        None \<Rightarrow> c
      | Some l \<Rightarrow> l)"

definition non_finite_str :: "string \<Rightarrow> bool" where
  "non_finite_str s =
     (map lower_char (snd (sign_of (strip s))) \<in> set [''inf'', ''infinity'', ''nan''])"

text \<open>
  \<open>float(v)\<close> with a finite value; \<open>None\<close> when it raises (\<open>TypeError\<close> on \<open>None\<close> and on
  containers, \<open>ValueError\<close> on a string that is no number) and when the value is an
  infinity or NaN, which \<open>non_finite\<close> tells apart: \<open>floatable v\<close> says that \<open>float(v)\<close>
  returns.
\<close>

fun py_float :: "pyval \<Rightarrow> real option" where
  "py_float PNone = None"
| "py_float (PBool b) = Some (if b then 1 else 0)"
| "py_float (PNum r) = Some r"
| "py_float (PStr s) = py_float_str s"
| "py_float PContainer = None"

fun non_finite :: "pyval \<Rightarrow> bool" where
  "non_finite (PStr s) = non_finite_str s"
| "non_finite PNone = False"
| "non_finite (PBool b) = False"
| "non_finite (PNum r) = False"
| "non_finite PContainer = False"

definition floatable :: "pyval \<Rightarrow> bool" where
  "floatable v = (case py_float v of None \<Rightarrow> non_finite v | Some r \<Rightarrow> True)"

subsection \<open>\<open>str.upper()\<close> and string formatting\<close>

definition upper_char :: "char \<Rightarrow> char" where
  "upper_char c =
     (case map_of (zip ''abcdefghijklmnopqrstuvwxyz'' ''ABCDEFGHIJKLMNOPQRSTUVWXYZ'') c of
        None \<Rightarrow> c
      | Some u \<Rightarrow> u)"

definition upper :: "string \<Rightarrow> string" where
  "upper s = map upper_char s"

text \<open>\<open>v.upper()\<close>: \<open>None\<close> when it raises \<open>AttributeError\<close>, that is, on everything but a string.\<close>

fun py_upper :: "pyval \<Rightarrow> string option" where
  "py_upper (PStr s) = Some (upper s)"
| "py_upper PNone = None"
| "py_upper (PBool b) = None"
| "py_upper (PNum r) = None"
| "py_upper PContainer = None"

text \<open>The decimal digits of an integer, as an f-string writes \<open>{row_num}\<close>.\<close>

function show_nat :: "nat \<Rightarrow> string" where
  "show_nat n =
     (if n < 10 then [''0123456789'' ! n]
      else show_nat (n div 10) @ [''0123456789'' ! (n mod 10)])"
  by pat_completeness auto
termination
  by (relation "measure id") auto

declare show_nat.simps [simp del]

definition quoted :: "string \<Rightarrow> string" where
  "quoted s = [CHR 0x22] @ s @ [CHR 0x22]"

section \<open>The worksheet\<close>

text \<open>
  A wallet is one worksheet of a spreadsheet.  \<open>SheetsConnector.update_range\<close> calls
  \<open>worksheet.update(range_name, values)\<close> without an input option, so the values are
  stored as they are (raw input): a string becomes text, also when it starts with
  \<open>=\<close>, a number becomes a number, and no formula is ever evaluated.

  A cell holds text or a number; the empty cell is the empty text.  Reading gives the
  shown string of the cell.  The shown string of a number is kept as \<open>Num r\<close>: the
  code sets no number format, and \<open>float()\<close> reads the string back as \<open>r\<close>.
\<close>

datatype cell = Str string | Num real

abbreviation Blank :: cell where
  "Blank \<equiv> Str []"

type_synonym row = "cell list"

text \<open>Row \<open>n\<close> of the worksheet (counted from 1, as in A1 notation) is element \<open>n - 1\<close>.\<close>

type_synonym sheet = "row list"

text \<open>Columns A to H are the indices 0 to 7.\<close>

definition colA :: nat where "colA = 0"
definition colB :: nat where "colB = 1"
definition colD :: nat where "colD = 3"
definition colF :: nat where "colF = 5"
definition colG :: nat where "colG = 6"
definition colH :: nat where "colH = 7"

text \<open>The truth value of a shown string: it is not empty.\<close>

fun truthy :: "cell \<Rightarrow> bool" where
  "truthy (Str s) = (s \<noteq> [])"
| "truthy (Num r) = True"

text \<open>\<open>float()\<close> on a shown string.\<close>

fun cell_float :: "cell \<Rightarrow> real option" where
  "cell_float (Str s) = py_float_str s"
| "cell_float (Num r) = Some r"

text \<open>
  A Python value written to a cell that holds \<open>c\<close>.  \<open>None\<close> is skipped by the API and
  leaves the cell as it is, the empty string empties it, a boolean shows as \<open>TRUE\<close> or
  \<open>FALSE\<close>.  A container is no cell value: the API refuses the update (\<open>None\<close> here).
\<close>

fun put :: "pyval \<Rightarrow> cell \<Rightarrow> cell option" where
  "put PNone c = Some c"
| "put (PBool b) c = Some (Str (if b then ''TRUE'' else ''FALSE''))"
| "put (PNum r) c = Some (Num r)"
| "put (PStr s) c = Some (Str s)"
| "put PContainer c = None"

text \<open>A list of values written over a row, from column A on.\<close>

fun put_row :: "pyval list \<Rightarrow> row \<Rightarrow> row option" where
  "put_row [] old = Some old"
| "put_row (v # vs) old =
     (case put v (case old of [] \<Rightarrow> Blank | c # cs \<Rightarrow> c) of
        None \<Rightarrow> None
      | Some c' \<Rightarrow>
          (case put_row vs (tl old) of None \<Rightarrow> None | Some cs' \<Rightarrow> Some (c' # cs')))"

definition cell_at :: "sheet \<Rightarrow> nat \<Rightarrow> nat \<Rightarrow> cell" where
  "cell_at sh c n =
     (if 0 < n \<and> n \<le> length sh \<and> c < length (sh ! (n - 1)) then sh ! (n - 1) ! c else Blank)"

section \<open>The environment of one operation\<close>

text \<open>
  Everything the code obtains from outside is a field of \<open>env\<close>: whether a call of the
  Sheets API returns or raises, the clock, the answer of a bot's endpoint (for a URL and
  an optional API key), and the numbers the random generator draws for a simulated
  trade.  One environment describes the outside for the duration of one operation.

  An element of the JSON list an endpoint answers with is an object, a string, a list,
  or a scalar (a number, a boolean or \<open>null\<close>).
\<close>

datatype json_elem = JObject trade_data | JString string | JArray | JScalar

datatype http_response = TransportError | JsonList "json_elem list" | JsonOther

record draw =
  dr_action :: nat
  dr_asset :: nat
  dr_quantity :: real
  dr_price :: real

record env =
  values_ok :: bool
  update_ok :: bool
  acell_ok :: "nat \<times> nat \<Rightarrow> bool"
  now_date :: string
  now_stamp :: string
  now_iso :: string
  http_get :: "string \<Rightarrow> string option \<Rightarrow> http_response"
  random_draw :: "string \<Rightarrow> draw"

section \<open>The Sheets API\<close>

text \<open>
  \<open>worksheet.get_all_values()\<close>: the API answers with the shown strings of the rows up to
  the last row that is not empty, each row up to its last cell that is not empty;
  gspread fills every row up to the width of the widest one with empty strings.  (For
  a sheet without any value gspread answers with no row or with one empty row,
  depending on its version; both callers treat the two alike.)
\<close>

definition trim :: "cell list \<Rightarrow> cell list" where
  "trim r = rev (dropWhile (\<lambda>c. \<not> truthy c) (rev r))"

definition get_all_values :: "sheet \<Rightarrow> cell list list" where
  "get_all_values sh =
     (let rows = rev (dropWhile (\<lambda>r. r = []) (rev (map trim sh)));
          w = foldl max 0 (map length rows)
      in map (\<lambda>r. r @ replicate (w - length r) Blank) rows)"

text \<open>
  \<open>SheetsConnector.update_range\<close> for a range \<open>A{n}:H{n}\<close> and one row of values:
  \<open>worksheet.update\<close> writes the values over row \<open>n\<close>; rows between the old end of the
  sheet and \<open>n\<close> stay empty.  The result is \<open>False\<close>, and nothing is written, when the
  API call raises, as it does on a value that is no cell value.
\<close>

definition update_range :: "env \<Rightarrow> nat \<Rightarrow> pyval list \<Rightarrow> sheet \<Rightarrow> bool \<times> sheet" where
  "update_range e n vs sh =
     (if \<not> update_ok e then (False, sh)
      else
        let sh' = sh @ replicate (n - length sh) [] in
        case put_row vs (sh' ! (n - 1)) of
          None \<Rightarrow> (False, sh)
        | Some r \<Rightarrow> (True, sh'[n - 1 := r]))"

text \<open>Cell addresses as (row, column); \<open>worksheet.acell(a).value\<close> is the shown string.\<close>

definition cell_A1 :: "nat \<times> nat" where "cell_A1 = (1, colA)"
definition cell_B2 :: "nat \<times> nat" where "cell_B2 = (2, colB)"
definition cell_D2 :: "nat \<times> nat" where "cell_D2 = (2, colD)"
definition cell_F2 :: "nat \<times> nat" where "cell_F2 = (2, colF)"
definition cell_H2 :: "nat \<times> nat" where "cell_H2 = (2, colH)"

definition acell :: "sheet \<Rightarrow> nat \<times> nat \<Rightarrow> cell" where
  "acell sh a = cell_at sh (snd a) (fst a)"

section \<open>\<open>WalletManager\<close>\<close>

text \<open>
  The list \<open>summary_headers\<close> of \<open>_create_sheet_structure\<close>: five rows of eight strings.
  The four entries of the second row that start with \<open>=\<close> are the formula strings of
  the source.
\<close>

definition initial_investment_formula :: string where
  "initial_investment_formula =
     ''=SUMPRODUCT((B6:B1000='' @ quoted ''BUY'' @ '')*(F6:F1000))''"

definition current_value_formula :: string where
  "current_value_formula = ''=IF(ROW(G1000:G6)>0,INDEX(G6:G1000,COUNTA(G6:G1000)),0)''"

definition total_return_formula :: string where
  "total_return_formula = ''=D2-B2''"

definition apy_formula :: string where
  "apy_formula =
     ''=IF(AND(B2>0,D2>0,COUNTA(A6:A1000)>0),'' @
     ''POWER((D2/B2),(365/MAX(1,DAYS(TODAY(),MIN(A6:A1000)))))-1,0)*100''"

definition summary_headers :: "string \<Rightarrow> string list list" where
  "summary_headers wallet =
     [[wallet @ '' - WALLET SUMMARY'', [], [], [], [], [], [], []],
      [''Initial Investment:'', initial_investment_formula, ''Current Value:'',
       current_value_formula, ''Total Return:'', total_return_formula, ''APY:'', apy_formula],
      [[], [], [], [], [], [], [], []],
      [''TRADE LOG'', [], [], [], [], [], [], []],
      [''Date'', ''Action'', ''Asset'', ''Quantity'', ''Price'', ''Total Value'',
       ''Running Balance'', ''Notes'']]"

text \<open>
  \<open>_create_sheet_structure\<close>: the sheet is cleared and the header rows are written
  one by one; the result of \<open>update_range\<close> is not looked at.  \<open>worksheet.clear()\<close> is
  taken to return; formatting changes no value.
\<close>

definition create_sheet_structure :: "env \<Rightarrow> string \<Rightarrow> sheet" where
  "create_sheet_structure e wallet =
     foldl (\<lambda>sh (i, r). snd (update_range e (i + 1) (map PStr r) sh)) []
       (enumerate 0 (summary_headers wallet))"

text \<open>
  \<open>_calculate_running_balance_formula\<close>:
  \<^verbatim>\<open>=IF(B6="BUY",F6,IF(B6="SELL",-F6,0))\<close> for row 6, otherwise
  \<^verbatim>\<open>=G{n-1}+IF(B{n}="BUY",F{n},IF(B{n}="SELL",-F{n},0))\<close>.
\<close>

definition calculate_running_balance_formula :: "nat \<Rightarrow> string" where
  "calculate_running_balance_formula row_num =
     (if row_num = 6
      then ''=IF(B6='' @ quoted ''BUY'' @ '',F6,IF(B6='' @ quoted ''SELL'' @ '',-F6,0))''
      else ''=G'' @ show_nat (row_num - 1) @ ''+IF(B'' @ show_nat row_num @ ''='' @
           quoted ''BUY'' @ '',F'' @ show_nat row_num @ '',IF(B'' @ show_nat row_num @ ''='' @
           quoted ''SELL'' @ '',-F'' @ show_nat row_num @ '',0))'')"

text \<open>\<open>trade_data.get(key, default)\<close> for the value \<open>field\<close> the dictionary has under the key.\<close>

definition dict_get :: "pyval option \<Rightarrow> pyval \<Rightarrow> pyval" where
  "dict_get field dflt = (case field of None \<Rightarrow> dflt | Some v \<Rightarrow> v)"

text \<open>\<open>any(row)\<close>: some shown string of the row is not empty.\<close>

definition any_row :: "cell list \<Rightarrow> bool" where
  "any_row vs = list_ex truthy vs"

definition next_row :: "cell list list \<Rightarrow> nat" where
  "next_row vals = max 6 (length (filter any_row vals) + 1)"

text \<open>
  The list \<open>trade_row\<close> of \<open>add_trade\<close>, for the converted quantity \<open>q\<close> and price \<open>p\<close>, the
  action in upper case \<open>a\<close> and the row number \<open>n\<close>.  The values of \<open>date\<close>, \<open>asset\<close>,
  \<open>total_value\<close> and \<open>notes\<close> go into the list as they are.
\<close>

definition trade_row :: "env \<Rightarrow> trade_data \<Rightarrow> real \<Rightarrow> real \<Rightarrow> string \<Rightarrow> nat \<Rightarrow> pyval list" where
  "trade_row e td q p a n =
     [dict_get (td_date td) (PStr (now_date e)),
      PStr a,
      dict_get (td_asset td) (PStr []),
      PNum q,
      PNum p,
      dict_get (td_total_value td) (PNum (q * p)),
      PStr (calculate_running_balance_formula n),
      dict_get (td_notes td) (PStr [])]"

text \<open>
  \<open>add_trade\<close>: every exception inside the \<open>try\<close> block (the API call raising, \<open>float()\<close>
  raising, \<open>upper()\<close> missing) and a failed \<open>update_range\<close> (the API raising or refusing
  a value) give \<open>False\<close> and leave the sheet as it was.  A quantity or price that
  \<open>float()\<close> reads as an infinity or NaN has no JSON form, so the update raises: the
  result is \<open>False\<close> as well.
\<close>

definition add_trade :: "env \<Rightarrow> trade_data \<Rightarrow> sheet \<Rightarrow> bool \<times> sheet" where
  "add_trade e td sh =
     (if \<not> values_ok e then (False, sh)
      else
        let n = next_row (get_all_values sh) in
        case py_float (dict_get (td_quantity td) (PNum 0)) of
          None \<Rightarrow> (False, sh)
        | Some q \<Rightarrow>
          (case py_float (dict_get (td_price td) (PNum 0)) of
             None \<Rightarrow> (False, sh)
           | Some p \<Rightarrow>
             (case py_upper (dict_get (td_action td) (PStr [])) of
                None \<Rightarrow> (False, sh)
              | Some a \<Rightarrow> update_range e n (trade_row e td q p a n) sh)))"

text \<open>
  One row of \<open>get_all_values()\<close> as \<open>get_trade_history\<close> reads it.  A row without a
  value in its first six columns is skipped; a \<open>ValueError\<close> of \<open>float()\<close> or an
  \<open>IndexError\<close> skips the row as well.
\<close>

record trade =
  date :: cell
  action :: cell
  asset :: cell
  quantity :: real
  price :: real
  total_value :: real
  running_balance :: real
  trade_notes :: cell

text \<open>
  \<open>float(x) if x else 0\<close> on a shown string.  (A text that \<open>float()\<close> reads as an
  infinity or NaN has no value here; no cell the code writes and then reads as a number
  holds one.)
\<close>

definition float_or_zero :: "cell \<Rightarrow> real option" where
  "float_or_zero c = (if truthy c then cell_float c else Some 0)"

definition parse_row :: "cell list \<Rightarrow> trade option" where
  "parse_row r =
     (if \<not> any_row (take 6 r) then None
      else if length r < 7 then None
      else
        case float_or_zero (r ! 3) of None \<Rightarrow> None
        | Some q \<Rightarrow>
          (case float_or_zero (r ! 4) of None \<Rightarrow> None
           | Some p \<Rightarrow>
             (case float_or_zero (r ! 5) of None \<Rightarrow> None
              | Some v \<Rightarrow>
                (case float_or_zero (r ! 6) of None \<Rightarrow> None
                 | Some b \<Rightarrow>
                     Some \<lparr>date = r ! 0, action = r ! 1, asset = r ! 2, quantity = q,
                           price = p, total_value = v, running_balance = b,
                           trade_notes = (if 7 < length r then r ! 7 else Blank)\<rparr>))))"

text \<open>The loop of \<open>get_trade_history\<close> over the rows.\<close>

fun parse_rows :: "cell list list \<Rightarrow> trade list" where
  "parse_rows [] = []"
| "parse_rows (r # rs) =
     (case parse_row r of None \<Rightarrow> parse_rows rs | Some t \<Rightarrow> t # parse_rows rs)"

text \<open>
  \<open>trades[-limit:]\<close> under \<open>if limit and len(trades) > limit\<close>: a positive limit keeps the
  last \<open>limit\<close> trades, a negative one drops the first \<open>-limit\<close>.
\<close>

definition apply_limit :: "int option \<Rightarrow> trade list \<Rightarrow> trade list" where
  "apply_limit limit trades =
     (case limit of
        None \<Rightarrow> trades
      | Some l \<Rightarrow>
          if l \<noteq> 0 \<and> l < int (length trades)
          then (if 0 < l then drop (length trades - nat l) trades else drop (nat (- l)) trades)
          else trades)"

definition get_trade_history :: "env \<Rightarrow> int option \<Rightarrow> sheet \<Rightarrow> trade list" where
  "get_trade_history e limit sh =
     (if \<not> values_ok e then []
      else
        let all_values = get_all_values sh in
        if length all_values < 6 then []
        else apply_limit limit (parse_rows (drop 5 all_values)))"

text \<open>
  \<open>_get_cell_value\<close>: the default when the API call raises and when the cell shows
  nothing; otherwise \<open>float()\<close> of the shown string without the characters \<open>$\<close>, \<open>,\<close> and
  \<open>%\<close>, and the default when that raises.  (As in \<open>float_or_zero\<close>, a text that reads
  as an infinity or NaN has no value here.)
\<close>

definition clean :: "string \<Rightarrow> string" where
  "clean s = filter (\<lambda>c. c \<notin> set ''$,%'') s"

definition get_cell_value :: "env \<Rightarrow> sheet \<Rightarrow> nat \<times> nat \<Rightarrow> real \<Rightarrow> real" where
  "get_cell_value e sh a dflt =
     (if \<not> acell_ok e a then dflt
      else case acell sh a of
             Num r \<Rightarrow> r
           | Str s \<Rightarrow>
               if s = [] then dflt
               else (case py_float_str (clean s) of None \<Rightarrow> dflt | Some r \<Rightarrow> r))"

record performance =
  name :: string
  initial_investment :: real
  current_value :: real
  total_return :: real
  total_return_pct :: real
  apy :: real

text \<open>
  \<open>get_wallet_performance\<close>.  No statement of its \<open>try\<close> block raises, because
  \<open>_get_cell_value\<close> catches every exception itself; the handler that returns the
  all-zero record is never entered.
\<close>

definition get_wallet_performance :: "env \<Rightarrow> string \<Rightarrow> sheet \<Rightarrow> performance" where
  "get_wallet_performance e wallet sh =
     (let ii = get_cell_value e sh cell_B2 0;
          cv = get_cell_value e sh cell_D2 0;
          tr = get_cell_value e sh cell_F2 0;
          ap = get_cell_value e sh cell_H2 0
      in \<lparr>name = wallet, initial_investment = ii, current_value = cv, total_return = tr,
           total_return_pct = (if 0 < ii then ((cv / ii) - 1) * 100 else 0), apy = ap\<rparr>)"

text \<open>
  \<open>_setup_wallet_sheet\<close> on the worksheet the spreadsheet holds under the wallet's name
  (\<open>None\<close>: a new, empty one is created): a sheet whose cell A1 contains
  \<open>WALLET SUMMARY\<close> is kept, any other gets the new structure; so does a sheet whose
  cell A1 cannot be read.
\<close>

fun contains :: "string \<Rightarrow> string \<Rightarrow> bool" where
  "contains sub [] = (sub = [])"
| "contains sub (c # cs) = (take (length sub) (c # cs) = sub \<or> contains sub cs)"

definition setup_wallet_sheet :: "env \<Rightarrow> string \<Rightarrow> sheet option \<Rightarrow> sheet" where
  "setup_wallet_sheet e wallet existing =
     (let ws = (case existing of None \<Rightarrow> [] | Some sh \<Rightarrow> sh) in
      case (if acell_ok e cell_A1 then acell ws cell_A1 else Blank) of
        Str s \<Rightarrow>
          if contains ''WALLET SUMMARY'' s then ws else create_sheet_structure e wallet
      | Num r \<Rightarrow> create_sheet_structure e wallet)"

section \<open>\<open>PortfolioManager\<close>\<close>

text \<open>
  The worksheets live in the spreadsheet, by title; \<open>wallet_managers\<close> is the dictionary
  of wallet managers in insertion order, each standing for the worksheet of its name.
\<close>

record portfolio_manager =
  spreadsheet :: "string \<Rightarrow> sheet option"
  wallet_managers :: "string list"

definition add_wallet :: "env \<Rightarrow> string \<Rightarrow> portfolio_manager \<Rightarrow> portfolio_manager" where
  "add_wallet e wallet pm =
     (if wallet \<in> set (wallet_managers pm) then pm
      else pm\<lparr>spreadsheet := (spreadsheet pm)
                 (wallet \<mapsto> setup_wallet_sheet e wallet (spreadsheet pm wallet)),
              wallet_managers := wallet_managers pm @ [wallet]\<rparr>)"

text \<open>The worksheet of a registered wallet; the empty sheet if it has none.\<close>

definition worksheet :: "portfolio_manager \<Rightarrow> string \<Rightarrow> sheet" where
  "worksheet pm wallet = (case spreadsheet pm wallet of None \<Rightarrow> [] | Some sh \<Rightarrow> sh)"

definition pm_add_trade ::
  "env \<Rightarrow> string \<Rightarrow> trade_data \<Rightarrow> portfolio_manager \<Rightarrow> bool \<times> portfolio_manager" where
  "pm_add_trade e wallet td pm =
     (if wallet \<notin> set (wallet_managers pm) then (False, pm)
      else
        let (success, sh') = add_trade e td (worksheet pm wallet) in
        (success, if success then pm\<lparr>spreadsheet := (spreadsheet pm)(wallet \<mapsto> sh')\<rparr> else pm))"

record portfolio_summary =
  timestamp :: string
  total_portfolio_value :: real
  total_invested :: real
  portfolio_return :: real
  portfolio_return_pct :: real
  num_wallets :: nat
  wallets :: "performance list"

text \<open>
  The loop of \<open>get_portfolio_summary\<close> over the wallet managers, with its three
  accumulators.  Nothing in the \<open>try\<close> block of \<open>get_portfolio_summary\<close> raises, so its
  handler, which returns the empty dictionary, is never entered.
\<close>

fun summary_loop ::
  "env \<Rightarrow> portfolio_manager \<Rightarrow> string list \<Rightarrow> real \<times> real \<times> performance list
     \<Rightarrow> real \<times> real \<times> performance list" where
  "summary_loop e pm [] acc = acc"
| "summary_loop e pm (w # ws) (tv, ti, summaries) =
     (let perf = get_wallet_performance e w (worksheet pm w) in
      summary_loop e pm ws (tv + current_value perf, ti + initial_investment perf, summaries @ [perf]))"

definition get_portfolio_summary :: "env \<Rightarrow> portfolio_manager \<Rightarrow> portfolio_summary" where
  "get_portfolio_summary e pm =
     (let (tv, ti, summaries) = summary_loop e pm (wallet_managers pm) (0, 0, []);
          tr = tv - ti
      in \<lparr>timestamp = now_iso e, total_portfolio_value = tv, total_invested = ti,
           portfolio_return = tr,
           portfolio_return_pct = (if 0 < ti then (tr / ti) * 100 else 0),
           num_wallets = length (wallet_managers pm), wallets = summaries\<rparr>)"

section \<open>\<open>BotConnector\<close>\<close>

text \<open>
  A Python dictionary with its insertion order: assigning to a key that is present
  replaces the value in place, a new key goes to the end.
\<close>

fun dict_set :: "'k \<Rightarrow> 'v \<Rightarrow> ('k \<times> 'v) list \<Rightarrow> ('k \<times> 'v) list" where
  "dict_set k v [] = [(k, v)]"
| "dict_set k v ((k', v') # xs) =
     (if k' = k then (k, v) # xs else (k', v') # dict_set k v xs)"

record bot_config =
  wallet_name :: string
  api_endpoint :: "string option"
  api_key :: "string option"
  last_update :: "string option"
  status :: string

record bot_connector =
  portfolio :: portfolio_manager
  registered_bots :: "(string \<times> bot_config) list"

definition register_bot ::
  "env \<Rightarrow> string \<Rightarrow> string \<Rightarrow> string option \<Rightarrow> string option \<Rightarrow> bot_connector
     \<Rightarrow> bot_connector" where
  "register_bot e bot_name wallet endpoint key bc =
     bc\<lparr>registered_bots :=
          dict_set bot_name \<lparr>wallet_name = wallet, api_endpoint = endpoint, api_key = key,
                        last_update = None, status = ''registered''\<rparr> (registered_bots bc),
        portfolio := add_wallet e wallet (portfolio bc)\<rparr>"

definition simulate_bot_trade :: "env \<Rightarrow> bot_connector \<Rightarrow> string \<Rightarrow> trade_data option" where
  "simulate_bot_trade e bc bot_name =
     (if map_of (registered_bots bc) bot_name = None then None
      else
        let d = random_draw e bot_name;
            assets = [''BTC'', ''ETH'', ''SOL'', ''MATIC'', ''LINK'', ''AVAX'', ''DOT'', ''ADA''];
            actions = [''BUY'', ''SELL'']
        in Some \<lparr>td_date = Some (PStr (now_stamp e)),
                 td_action = Some (PStr (actions ! (dr_action d mod 2))),
                 td_asset = Some (PStr (assets ! (dr_asset d mod 8))),
                 td_quantity = Some (PNum (dr_quantity d)),
                 td_price = Some (PNum (dr_price d)),
                 td_total_value = Some (PNum (dr_quantity d * dr_price d)),
                 td_notes = Some (PStr (''Simulated trade from '' @ bot_name))\<rparr>)"

text \<open>
  \<open>_validate_trade_data\<close> on a dictionary returns \<open>False\<close> when one of the four required
  keys is missing, when \<open>float()\<close> raises on the quantity or the price (\<open>ValueError\<close> and
  \<open>TypeError\<close> are caught), and when the action in upper case is neither \<open>BUY\<close> nor
  \<open>SELL\<close>.  An action that is no string has no \<open>upper\<close>: the \<open>AttributeError\<close> is not
  caught and leaves the function.
\<close>

datatype verdict = Accept | Reject | Raise

definition validate_trade_data :: "trade_data \<Rightarrow> verdict" where
  "validate_trade_data td =
     (case td_action td of None \<Rightarrow> Reject
      | Some a \<Rightarrow>
        (case td_asset td of None \<Rightarrow> Reject
         | Some s \<Rightarrow>
           (case td_quantity td of None \<Rightarrow> Reject
            | Some q \<Rightarrow>
              (case td_price td of None \<Rightarrow> Reject
               | Some p \<Rightarrow>
                 if \<not> floatable q then Reject
                 else if \<not> floatable p then Reject
                 else
                   (case py_upper a of None \<Rightarrow> Raise
                    | Some u \<Rightarrow> if u \<in> set [''BUY'', ''SELL''] then Accept else Reject)))))"

text \<open>
  \<open>_validate_trade_data\<close> on an element that is no object.  On a string the tests
  \<open>field not in trade_data\<close> look for substrings and on a list for members; if all four
  are found, indexing with \<open>'quantity'\<close> raises a \<open>TypeError\<close>, which is caught: the
  result is \<open>False\<close> either way.  On a number, a boolean or \<open>null\<close> the first test
  raises a \<open>TypeError\<close> outside the \<open>try\<close> block.
\<close>

fun validate_elem :: "json_elem \<Rightarrow> verdict" where
  "validate_elem (JObject td) = validate_trade_data td"
| "validate_elem (JString s) = Reject"
| "validate_elem JArray = Reject"
| "validate_elem JScalar = Raise"

text \<open>
  The loop of \<open>fetch_bot_trades\<close> over the elements of the answer; \<open>None\<close> when
  \<open>_validate_trade_data\<close> raises.
\<close>

fun validated_trades :: "json_elem list \<Rightarrow> trade_data list \<Rightarrow> trade_data list option" where
  "validated_trades [] acc = Some acc"
| "validated_trades (x # xs) acc =
     (case validate_elem x of
        Raise \<Rightarrow> None
      | Reject \<Rightarrow> validated_trades xs acc
      | Accept \<Rightarrow>
          (case x of
             JObject td \<Rightarrow> validated_trades xs (acc @ [td])
           | _ \<Rightarrow> validated_trades xs acc))"

text \<open>
  \<open>fetch_bot_trades\<close>: without an endpoint one simulated trade; otherwise the accepted
  elements of the list the endpoint answers with.  A request that fails (no connection,
  an HTTP error status, a body that is no JSON), an answer that is no list and an
  exception of the validation all end in a handler that returns the empty list.
\<close>

definition fetch_bot_trades :: "env \<Rightarrow> bot_connector \<Rightarrow> string \<Rightarrow> trade_data list" where
  "fetch_bot_trades e bc bot_name =
     (case map_of (registered_bots bc) bot_name of
        None \<Rightarrow> []
      | Some cfg \<Rightarrow>
          if api_endpoint cfg = None \<or> api_endpoint cfg = Some []
          then (case simulate_bot_trade e bc bot_name of None \<Rightarrow> [] | Some t \<Rightarrow> [t])
          else
            (case http_get e (the (api_endpoint cfg))
                    (if api_key cfg = Some [] then None else api_key cfg) of
               TransportError \<Rightarrow> []
             | JsonOther \<Rightarrow> []
             | JsonList elems \<Rightarrow>
                 (case validated_trades elems [] of None \<Rightarrow> [] | Some tds \<Rightarrow> tds)))"

text \<open>The loop of \<open>process_bot_trades\<close> over the fetched trades, counting the successes.\<close>

fun add_trades ::
  "env \<Rightarrow> string \<Rightarrow> trade_data list \<Rightarrow> nat \<times> portfolio_manager \<Rightarrow> nat \<times> portfolio_manager" where
  "add_trades e wallet [] acc = acc"
| "add_trades e wallet (td # tds) (success_count, pm) =
     (let (success, pm') = pm_add_trade e wallet td pm in
      add_trades e wallet tds (if success then success_count + 1 else success_count, pm'))"

text \<open>
  \<open>process_bot_trades\<close>.  Neither \<open>fetch_bot_trades\<close> nor \<open>add_trade\<close> lets an exception
  out, so the handler that sets the status \<open>error\<close> is never entered.
\<close>

definition process_bot_trades :: "env \<Rightarrow> string \<Rightarrow> bot_connector \<Rightarrow> bool \<times> bot_connector" where
  "process_bot_trades e bot_name bc =
     (case map_of (registered_bots bc) bot_name of
        None \<Rightarrow> (False, bc)
      | Some cfg \<Rightarrow>
          let trades = fetch_bot_trades e bc bot_name;
              (success_count, pm') = add_trades e (wallet_name cfg) trades (0, portfolio bc)
          in (0 < success_count,
              bc\<lparr>portfolio := pm',
                 registered_bots :=
                   dict_set bot_name (cfg\<lparr>last_update := Some (now_iso e), status := ''active''\<rparr>)
                     (registered_bots bc)\<rparr>))"

fun update_loop ::
  "env \<Rightarrow> string list \<Rightarrow> (string \<times> bool) list \<times> bot_connector
     \<Rightarrow> (string \<times> bool) list \<times> bot_connector" where
  "update_loop e [] acc = acc"
| "update_loop e (bot_name # bot_names) (results, bc) =
     (let (success, bc') = process_bot_trades e bot_name bc in
      update_loop e bot_names (dict_set bot_name success results, bc'))"

definition update_all_bots :: "env \<Rightarrow> bot_connector \<Rightarrow> (string \<times> bool) list \<times> bot_connector" where
  "update_all_bots e bc = update_loop e (map fst (registered_bots bc)) ([], bc)"

definition get_bot_status :: "bot_connector \<Rightarrow> (string \<times> bot_config) list" where
  "get_bot_status bc = registered_bots bc"

section \<open>Auxiliary notions for the statements\<close>

text \<open>
  Whether \<open>add_trade\<close> succeeds does not depend on the sheet (\<open>add_trade_accepted\<close>
  below); \<open>accepted e td\<close> is its result on the empty sheet.
\<close>

definition accepted :: "env \<Rightarrow> trade_data \<Rightarrow> bool" where
  "accepted e td = fst (add_trade e td [])"

text \<open>The trades of a list given to \<open>add_trade\<close> one after the other.\<close>

definition add_all :: "env \<Rightarrow> trade_data list \<Rightarrow> sheet \<Rightarrow> sheet" where
  "add_all e tds sh = foldl (\<lambda>s td. snd (add_trade e td s)) sh tds"

text \<open>The five header rows as cells.\<close>

definition header_rows :: "string \<Rightarrow> sheet" where
  "header_rows wallet = map (map Str) (summary_headers wallet)"

text \<open>
  A wallet sheet as the code writes it: the five header rows followed by rows that
  have eight cells, a number as quantity and the formula string of their row number
  in column G.
\<close>

definition is_trade_row :: "nat \<Rightarrow> row \<Rightarrow> bool" where
  "is_trade_row n r \<longleftrightarrow>
     length r = 8 \<and> (case r ! 3 of Num q \<Rightarrow> True | Str s \<Rightarrow> False) \<and>
     r ! 6 = Str (calculate_running_balance_formula n)"

definition wallet_sheet :: "string \<Rightarrow> sheet \<Rightarrow> bool" where
  "wallet_sheet wallet sh \<longleftrightarrow>
     take 5 sh = header_rows wallet \<and>
     list_all (\<lambda>n. is_trade_row n (sh ! (n - 1))) [6..<Suc (length sh)]"

text \<open>
  The fetch of a bot fails: it has an endpoint, and the request fails or is answered
  with something that is no list.
\<close>

definition fetch_fails :: "env \<Rightarrow> bot_connector \<Rightarrow> string \<Rightarrow> bool" where
  "fetch_fails e bc bot_name =
     (case map_of (registered_bots bc) bot_name of
        None \<Rightarrow> False
      | Some cfg \<Rightarrow>
          (case api_endpoint cfg of
             None \<Rightarrow> False
           | Some url \<Rightarrow>
               url \<noteq> [] \<and>
               (case http_get e url (if api_key cfg = Some [] then None else api_key cfg) of
                  JsonList elems \<Rightarrow> False
                | _ \<Rightarrow> True)))"

text \<open>The wallet a bot is registered with.\<close>

definition wallet_of :: "bot_connector \<Rightarrow> string \<Rightarrow> string" where
  "wallet_of bc bot_name =
     (case map_of (registered_bots bc) bot_name of None \<Rightarrow> [] | Some cfg \<Rightarrow> wallet_name cfg)"

text \<open>
  A bot ingests a trade: its wallet has a manager and \<open>add_trade\<close> succeeds on one of
  the trades fetched for it.
\<close>

definition ingests :: "env \<Rightarrow> bot_connector \<Rightarrow> string \<Rightarrow> bool" where
  "ingests e bc bot_name =
     (wallet_of bc bot_name \<in> set (wallet_managers (portfolio bc)) \<and>
      list_ex (accepted e) (fetch_bot_trades e bc bot_name))"

text \<open>
  The portfolio after the trades fetched for the bots of a list were given, bot by
  bot, to \<open>add_trade\<close> of the bot's wallet.
\<close>

definition ingest_all :: "env \<Rightarrow> bot_connector \<Rightarrow> string list \<Rightarrow> portfolio_manager" where
  "ingest_all e bc bot_names =
     foldl (\<lambda>pm b. snd (add_trades e (wallet_of bc b) (fetch_bot_trades e bc b) (0, pm)))
       (portfolio bc) bot_names"

section \<open>Sample inputs\<close>

text \<open>An environment in which every call of the Sheets API returns.\<close>

definition online :: env where
  "online =
     \<lparr>values_ok = True, update_ok = True, acell_ok = (\<lambda>a. True),
      now_date = ''2024-06-15'', now_stamp = ''2024-06-15 12:00:00'',
      now_iso = ''2024-06-15T12:00:00'',
      http_get = (\<lambda>url key. TransportError),
      random_draw = (\<lambda>b. \<lparr>dr_action = 0, dr_asset = 0, dr_quantity = 1, dr_price = 100\<rparr>)\<rparr>"

text \<open>An API whose read of cell D2 raises while every other call returns.\<close>

definition d2_fails :: env where
  "d2_fails = online\<lparr>acell_ok := (\<lambda>a. a \<noteq> cell_D2)\<rparr>"

text \<open>An API of which every call raises.\<close>

definition offline :: env where
  "offline = online\<lparr>values_ok := False, update_ok := False, acell_ok := (\<lambda>a. False)\<rparr>"

text \<open>The first sample trade of \<open>scripts/run_updates.py\<close>: 0.5 BTC at 67000.\<close>

definition btc_buy :: trade_data where
  "btc_buy =
     \<lparr>td_date = Some (PStr ''2024-06-15''), td_action = Some (PStr ''BUY''),
      td_asset = Some (PStr ''BTC''), td_quantity = Some (PNum 0.5),
      td_price = Some (PNum 67000), td_total_value = None,
      td_notes = Some (PStr ''Initial BTC position'')\<rparr>"

definition buy1000 :: trade_data where
  "buy1000 =
     \<lparr>td_date = Some (PStr ''2024-01-01''), td_action = Some (PStr ''BUY''),
      td_asset = Some (PStr ''BTC''), td_quantity = Some (PNum 1), td_price = Some (PNum 1000),
      td_total_value = Some (PNum 1000), td_notes = None\<rparr>"

definition sell1200 :: trade_data where
  "sell1200 =
     \<lparr>td_date = Some (PStr ''2024-01-02''), td_action = Some (PStr ''SELL''),
      td_asset = Some (PStr ''BTC''), td_quantity = Some (PNum 1), td_price = Some (PNum 1200),
      td_total_value = Some (PNum 1200), td_notes = None\<rparr>"

definition negative_quantity :: trade_data where
  "negative_quantity =
     \<lparr>td_date = Some (PStr ''2024-01-03''), td_action = Some (PStr ''BUY''),
      td_asset = Some (PStr ''ETH''), td_quantity = Some (PNum (- 2)),
      td_price = Some (PNum 100), td_total_value = None, td_notes = None\<rparr>"

definition hold_trade :: trade_data where
  "hold_trade =
     \<lparr>td_date = Some (PStr ''2024-01-04''), td_action = Some (PStr ''HOLD''),
      td_asset = Some (PStr ''BTC''), td_quantity = Some (PNum 1), td_price = Some (PNum 100),
      td_total_value = Some (PNum 100), td_notes = None\<rparr>"

definition garbled :: trade_data where
  "garbled =
     \<lparr>td_date = None, td_action = Some (PStr ''BUY''), td_asset = Some (PStr ''BTC''),
      td_quantity = Some (PStr ''abc''), td_price = Some (PStr ''n/a''),
      td_total_value = None, td_notes = None\<rparr>"

text \<open>The worksheet of a new wallet, as \<open>WalletManager(connector, wallet)\<close> sets it up.\<close>

definition new_wallet :: "string \<Rightarrow> sheet" where
  "new_wallet wallet = setup_wallet_sheet online wallet None"

text \<open>The worksheet of a new wallet after \<open>add_trade(buy1000)\<close> and \<open>add_trade(sell1200)\<close>.\<close>

definition after_buy :: sheet where
  "after_buy = snd (add_trade online buy1000 (new_wallet ''W''))"

definition after_buy_sell :: sheet where
  "after_buy_sell = snd (add_trade online sell1200 after_buy)"

text \<open>The worksheet of a new wallet after \<open>add_trade(btc_buy)\<close>.\<close>

definition after_btc_buy :: sheet where
  "after_btc_buy = snd (add_trade online btc_buy (new_wallet ''Wallet_Arbitrage''))"

text \<open>
  A wallet sheet that was filled in by hand: row 2 holds figures instead of the formula
  strings (one of them as text with a currency sign), and the trade rows hold numbers
  in column G.  \<open>_setup_wallet_sheet\<close> keeps such a sheet, since its cell A1 contains
  \<open>WALLET SUMMARY\<close>.
\<close>

definition prepared :: sheet where
  "prepared =
     [[Str ''W - WALLET SUMMARY''],
      [Str ''Initial Investment:'', Num 1000, Str ''Current Value:'', Str ''$1,500.00'',
       Str ''Total Return:'', Num 500, Str ''APY:'', Num 12.5],
      [],
      [Str ''TRADE LOG''],
      [Str ''Date'', Str ''Action'', Str ''Asset'', Str ''Quantity'', Str ''Price'',
       Str ''Total Value'', Str ''Running Balance'', Str ''Notes''],
      [Str ''2024-01-01'', Str ''BUY'', Str ''BTC'', Num 1, Num 1000, Num 1000, Num 1000],
      [Str ''2024-02-01'', Str ''BUY'', Str ''ETH'', Str ''2'', Num 250, Num 500, Num 1500,
       Str ''second'']]"

text \<open>
  Four endpoints that answer with a list, the last of them with a valid record and a
  \<open>null\<close>; every other URL is unreachable.
\<close>

definition feeds :: env where
  "feeds = online\<lparr>http_get := (\<lambda>url key.
      if url = ''https://bot1.example/trades''
      then JsonList [JObject buy1000, JObject hold_trade, JString ''note'']
      else if url = ''https://bot3.example/trades'' then JsonList [JObject sell1200]
      else if url = ''https://hold.example/trades'' then JsonList [JObject hold_trade]
      else if url = ''https://null.example/trades'' then JsonList [JObject buy1000, JScalar]
      else TransportError)\<rparr>"

definition empty_connector :: bot_connector where
  "empty_connector =
     \<lparr>portfolio = \<lparr>spreadsheet = (\<lambda>t. None), wallet_managers = []\<rparr>, registered_bots = []\<rparr>"


definition three_bots :: bot_connector where
  "three_bots =
     register_bot feeds ''bot3'' ''Wallet_Grid'' (Some ''https://bot3.example/trades'') None
       (register_bot feeds ''bot2'' ''Wallet_DCA'' (Some ''https://bot2.example/trades'')
          (Some ''secret'')
          (register_bot feeds ''bot1'' ''Wallet_Arbitrage''
             (Some ''https://bot1.example/trades'') None empty_connector))"

section \<open>Formula strings are no numbers\<close>

lemma strip_formula: "\<exists>t. strip (CHR ''='' # s) = CHR ''='' # t"
proof -
  have a: "dropWhile is_space (CHR ''='' # s) = CHR ''='' # s"
    by (simp add: is_space_def)
  have b: "\<exists>u. dropWhile is_space (rev (CHR ''='' # s)) = u @ [CHR ''='']"
    by (cases "\<forall>x \<in> set (rev s). is_space x") (auto simp: dropWhile_append is_space_def)
  then obtain u where "dropWhile is_space (rev (CHR ''='' # s)) = u @ [CHR ''='']" by blast
  then show ?thesis unfolding strip_def a by simp
qed

lemma digitpart_formula: "digitpart v 0 (CHR ''='' # t) = (v, 0, CHR ''='' # t)"
  by (cases t) (simp_all add: digit_val_def)

lemma formula_no_float: "py_float_str (CHR ''='' # s) = None"
proof -
  obtain t where t: "strip (CHR ''='' # s) = CHR ''='' # t" using strip_formula by blast
  show ?thesis
    by (simp add: py_float_str_def t sign_of_def digitpart_formula)
qed

lemma clean_formula: "clean (CHR ''='' # s) = CHR ''='' # clean s"
  by (simp add: clean_def)

lemma running_formula: "\<exists>s. calculate_running_balance_formula n = CHR ''='' # s"
  by (simp add: calculate_running_balance_formula_def)

lemma summary_formulas:
  "\<exists>s. initial_investment_formula = CHR ''='' # s"
  "\<exists>s. current_value_formula = CHR ''='' # s"
  "\<exists>s. total_return_formula = CHR ''='' # s"
  "\<exists>s. apy_formula = CHR ''='' # s"
  by (simp_all add: initial_investment_formula_def current_value_formula_def
      total_return_formula_def apy_formula_def)

lemma get_cell_value_formula:
  "acell sh a = Str (CHR ''='' # s) \<Longrightarrow> get_cell_value e sh a d = d"
  by (simp add: get_cell_value_def clean_formula formula_no_float)

section \<open>What \<open>get_all_values\<close> keeps\<close>

lemma list_ex_dropWhile: "list_ex P (dropWhile (\<lambda>x. \<not> P x) xs) = list_ex P xs"
  by (induction xs) simp_all

lemma list_ex_rev: "list_ex P (rev xs) = list_ex P xs"
  by (simp add: list_ex_iff)

lemma any_row_trim: "any_row (trim r) = any_row r"
  by (simp add: any_row_def trim_def list_ex_rev list_ex_dropWhile)

lemma any_row_pad: "any_row (r @ replicate k Blank) = any_row r"
  by (auto simp: any_row_def list_ex_iff)

lemma filter_dropWhile:
  "(\<And>x. Q x \<Longrightarrow> \<not> P x) \<Longrightarrow> filter P (dropWhile Q xs) = filter P xs"
  by (induction xs) simp_all

lemma filter_any_row_kept:
  "filter any_row (rev (dropWhile (\<lambda>r. r = []) (rev xs))) = filter any_row xs"
proof -
  have "filter any_row (dropWhile (\<lambda>r. r = []) (rev xs)) = filter any_row (rev xs)"
    by (rule filter_dropWhile) (simp add: any_row_def)
  then show ?thesis by (simp add: rev_filter[symmetric])
qed

lemma count_get_all_values:
  "length (filter any_row (get_all_values sh)) = length (filter any_row sh)"
proof -
  let ?rows = "rev (dropWhile (\<lambda>r. r = []) (rev (map trim sh)))"
  let ?w = "foldl max 0 (map length ?rows)"
  have "length (filter any_row (map (\<lambda>r. r @ replicate (?w - length r) Blank) ?rows)) =
        length (filter any_row ?rows)"
    by (simp add: filter_map comp_def any_row_pad)
  also have "\<dots> = length (filter any_row (map trim sh))"
    by (simp add: filter_any_row_kept)
  also have "\<dots> = length (filter any_row sh)"
    by (simp add: filter_map comp_def any_row_trim)
  finally show ?thesis by (simp add: get_all_values_def Let_def)
qed

lemma next_row_count:
  "next_row (get_all_values sh) = max 6 (length (filter any_row sh) + 1)"
  by (simp add: next_row_def count_get_all_values)

lemma rev_dropWhile_take: "\<exists>m. rev (dropWhile P (rev xs)) = take m xs"
proof -
  have "rev (dropWhile P (rev xs)) = rev (drop (length (takeWhile P (rev xs))) (rev xs))"
    by (simp add: dropWhile_eq_drop)
  also have "\<dots> = take (length xs - length (takeWhile P (rev xs))) xs"
    by (simp add: rev_drop)
  finally show ?thesis by blast
qed

lemma trim_take: "\<exists>m. trim r = take m r"
  unfolding trim_def by (rule rev_dropWhile_take)

lemma trim_snoc: "trim (xs @ [x]) = (if truthy x then xs @ [x] else trim xs)"
  by (simp add: trim_def)

lemma trim_nth: "i < length r \<Longrightarrow> truthy (r ! i) \<Longrightarrow> i < length (trim r) \<and> trim r ! i = r ! i"
proof (induction r rule: rev_induct)
  case Nil
  then show ?case by simp
next
  case (snoc x xs)
  show ?case
  proof (cases "truthy x")
    case True
    then show ?thesis using snoc.prems by (simp add: trim_snoc)
  next
    case False
    have "i \<noteq> length xs" using snoc.prems(2) False by auto
    then have i: "i < length xs" using snoc.prems(1) by simp
    then have "truthy (xs ! i)" using snoc.prems(2) by (simp add: nth_append)
    then show ?thesis using snoc.IH i False by (simp add: trim_snoc nth_append)
  qed
qed

lemma length_trim: "length (trim r) \<le> length r"
  using trim_take[of r] by auto

section \<open>Rows with a formula string in column G\<close>

lemma parse_row_formula:
  "6 < length x \<Longrightarrow> x ! 6 = Str (CHR ''='' # s) \<Longrightarrow> parse_row x = None"
  by (simp add: parse_row_def float_or_zero_def formula_no_float split: option.splits)

lemma parse_rows_none: "(\<And>x. x \<in> set xs \<Longrightarrow> parse_row x = None) \<Longrightarrow> parse_rows xs = []"
  by (induction xs) simp_all

lemma apply_limit_nil: "apply_limit l [] = []"
  by (simp add: apply_limit_def split: option.splits)

lemma history_formula_rows:
  assumes "\<And>r. r \<in> set (drop 5 sh) \<Longrightarrow> 6 < length r \<and> (\<exists>s. r ! 6 = Str (CHR ''='' # s))"
  shows "get_trade_history e limit sh = []"
proof -
  let ?kept = "rev (dropWhile (\<lambda>r. r = []) (rev (map trim sh)))"
  let ?w = "foldl max 0 (map length ?kept)"
  let ?pad = "\<lambda>r. r @ replicate (?w - length r) Blank"
  obtain m where m: "?kept = take m (map trim sh)" using rev_dropWhile_take by blast
  have g: "get_all_values sh = map (\<lambda>r. ?pad (trim r)) (take m sh)"
    by (simp add: get_all_values_def Let_def m take_map)
  have d: "drop 5 (get_all_values sh) = map (\<lambda>r. ?pad (trim r)) (take (m - 5) (drop 5 sh))"
    unfolding g by (simp add: drop_map drop_take)
  have "parse_row x = None" if "x \<in> set (drop 5 (get_all_values sh))" for x
  proof -
    from that obtain r where r: "r \<in> set (take (m - 5) (drop 5 sh))" and x: "x = ?pad (trim r)"
      unfolding d by auto
    from r have "r \<in> set (drop 5 sh)" by (rule in_set_takeD)
    with assms obtain s where l: "6 < length r" and s: "r ! 6 = Str (CHR ''='' # s)" by blast
    have t: "6 < length (trim r) \<and> trim r ! 6 = r ! 6" using trim_nth[OF l] s by simp
    have "6 < length x" using t x by simp
    moreover have "x ! 6 = Str (CHR ''='' # s)" using t x s by (simp add: nth_append)
    ultimately show ?thesis by (rule parse_row_formula)
  qed
  then have "parse_rows (drop 5 (get_all_values sh)) = []" by (rule parse_rows_none)
  then show ?thesis by (simp add: get_trade_history_def Let_def apply_limit_nil)
qed

section \<open>Writing a row\<close>

lemma put_row_length: "put_row vs old = Some r \<Longrightarrow> length r = max (length vs) (length old)"
proof (induction vs arbitrary: old r)
  case Nil
  then show ?case by simp
next
  case (Cons v vs)
  then show ?case by (cases old) (auto split: option.splits)
qed

lemma put_row_nth:
  "put_row vs old = Some r \<Longrightarrow> i < length vs \<Longrightarrow>
   put (vs ! i) (if i < length old then old ! i else Blank) = Some (r ! i)"
proof (induction vs arbitrary: old r i)
  case Nil
  then show ?case by simp
next
  case (Cons v vs)
  show ?case
  proof (cases i)
    case 0
    then show ?thesis using Cons.prems by (cases old) (auto split: option.splits)
  next
    case (Suc j)
    from Cons.prems obtain c' cs' where c: "put_row vs (tl old) = Some cs'" and r: "r = c' # cs'"
      by (auto split: option.splits)
    have "put (vs ! j) (if j < length (tl old) then tl old ! j else Blank) = Some (cs' ! j)"
      using Cons.IH[OF c] Cons.prems(2) Suc by simp
    then show ?thesis using Suc r by (cases old) (auto split: if_splits)
  qed
qed

lemma put_row_refused: "(put_row vs old = None) = (PContainer \<in> set vs)"
proof (induction vs arbitrary: old)
  case Nil
  then show ?case by simp
next
  case (Cons v vs)
  show ?case using Cons.IH[of "tl old"] by (cases v) (auto split: option.splits)
qed

section \<open>New wallets\<close>

lemma header_rows_eq:
  "header_rows w =
     [[Str (w @ '' - WALLET SUMMARY''), Blank, Blank, Blank, Blank, Blank, Blank, Blank],
      [Str ''Initial Investment:'', Str initial_investment_formula, Str ''Current Value:'',
       Str current_value_formula, Str ''Total Return:'', Str total_return_formula,
       Str ''APY:'', Str apy_formula],
      [Blank, Blank, Blank, Blank, Blank, Blank, Blank, Blank],
      [Str ''TRADE LOG'', Blank, Blank, Blank, Blank, Blank, Blank, Blank],
      [Str ''Date'', Str ''Action'', Str ''Asset'', Str ''Quantity'', Str ''Price'',
       Str ''Total Value'', Str ''Running Balance'', Str ''Notes'']]"
  by (simp add: header_rows_def summary_headers_def)

lemma create_sheet_structure_ok: "update_ok e \<Longrightarrow> create_sheet_structure e w = header_rows w"
  by (simp add: create_sheet_structure_def header_rows_def summary_headers_def enumerate_eq_zip
      upt_conv_Cons update_range_def)

lemma create_sheet_structure_fails: "\<not> update_ok e \<Longrightarrow> create_sheet_structure e w = []"
  by (simp add: create_sheet_structure_def summary_headers_def enumerate_eq_zip
      upt_conv_Cons update_range_def)

lemma setup_new: "update_ok e \<Longrightarrow> setup_wallet_sheet e w None = header_rows w"
  by (simp add: setup_wallet_sheet_def acell_def cell_at_def cell_A1_def
      create_sheet_structure_ok)

lemma new_wallet_eq: "new_wallet w = header_rows w"
  by (simp add: new_wallet_def setup_new online_def)

section \<open>When \<open>add_trade\<close> succeeds\<close>

lemma container_in_trade_row:
  "(PContainer \<in> set (trade_row e td q p a n)) =
   (td_date td = Some PContainer \<or> td_asset td = Some PContainer \<or>
    td_total_value td = Some PContainer \<or> td_notes td = Some PContainer)"
  by (auto simp: trade_row_def dict_get_def split: option.splits)

lemma add_trade_succeeds:
  "fst (add_trade e td sh) =
   (values_ok e \<and> update_ok e \<and> py_float (dict_get (td_quantity td) (PNum 0)) \<noteq> None \<and>
    py_float (dict_get (td_price td) (PNum 0)) \<noteq> None \<and>
    py_upper (dict_get (td_action td) (PStr [])) \<noteq> None \<and>
    td_date td \<noteq> Some PContainer \<and> td_asset td \<noteq> Some PContainer \<and>
    td_total_value td \<noteq> Some PContainer \<and> td_notes td \<noteq> Some PContainer)"
proof -
  have u: "fst (update_range e n vs s) = (update_ok e \<and> PContainer \<notin> set vs)" for n vs s
    using put_row_refused[of vs "(s @ replicate (n - length s) []) ! (n - 1)"]
    by (auto simp: update_range_def Let_def split: option.splits)
  show ?thesis
    by (auto simp: add_trade_def Let_def u container_in_trade_row split: option.splits)
qed

lemma add_trade_accepted: "fst (add_trade e td sh) = accepted e td"
  unfolding accepted_def add_trade_succeeds ..

lemma add_trade_fails: "\<not> fst (add_trade e td sh) \<Longrightarrow> add_trade e td sh = (False, sh)"
  by (auto simp: add_trade_def update_range_def Let_def split: option.splits if_splits)

section \<open>Wallet sheets\<close>

lemma ws_length: "wallet_sheet w sh \<Longrightarrow> 5 \<le> length sh"
proof -
  assume "wallet_sheet w sh"
  then have "length (take 5 sh) = 5" by (simp add: wallet_sheet_def header_rows_eq)
  then show ?thesis by simp
qed

lemma ws_row:
  "wallet_sheet w sh \<Longrightarrow> 6 \<le> n \<Longrightarrow> n \<le> length sh \<Longrightarrow> is_trade_row n (sh ! (n - 1))"
  by (simp add: wallet_sheet_def list_all_iff del: upt_Suc)

lemma ws_drop:
  assumes "wallet_sheet w sh" "r \<in> set (drop 5 sh)"
  shows "\<exists>n. is_trade_row n r"
proof -
  from assms(2) obtain i where i: "i < length (drop 5 sh)" and r: "r = drop 5 sh ! i"
    by (auto simp: in_set_conv_nth)
  have "is_trade_row (6 + i) (sh ! (6 + i - 1))"
    using i by (intro ws_row[OF assms(1)]) simp_all
  moreover have "sh ! (6 + i - 1) = r" using i r by simp
  ultimately show ?thesis by blast
qed

lemma trade_row_any: "is_trade_row n r \<Longrightarrow> any_row r"
proof -
  assume a: "is_trade_row n r"
  then have "3 < length r" "truthy (r ! 3)"
    by (auto simp: is_trade_row_def split: cell.splits)
  then have "\<exists>c \<in> set r. truthy c" by (metis nth_mem)
  then show ?thesis by (simp add: any_row_def list_ex_iff)
qed

lemma header_count: "length (filter any_row (header_rows w)) = 4"
  by (simp add: header_rows_eq any_row_def)

lemma ws_count:
  assumes "wallet_sheet w sh"
  shows "length (filter any_row sh) = length sh - 1"
proof -
  have t: "take 5 sh = header_rows w" using assms by (simp add: wallet_sheet_def)
  have "filter any_row (drop 5 sh) = drop 5 sh"
  proof (rule filter_True, rule ballI)
    fix r assume "r \<in> set (drop 5 sh)"
    then show "any_row r" using ws_drop[OF assms] trade_row_any by blast
  qed
  then have "length (filter any_row (take 5 sh @ drop 5 sh)) = 4 + (length sh - 5)"
    by (simp add: t header_count)
  then show ?thesis using ws_length[OF assms] by simp
qed

lemma next_row_ws: "wallet_sheet w sh \<Longrightarrow> next_row (get_all_values sh) = max 6 (length sh)"
  using ws_length[of w sh] by (simp add: next_row_count ws_count)

lemma put_trade_row:
  assumes "put_row (trade_row e td q p a n) old = Some r" "length old \<le> 8"
  shows "is_trade_row n r"
proof -
  have l: "length (trade_row e td q p a n) = 8" by (simp add: trade_row_def)
  have "length r = 8" using put_row_length[OF assms(1)] assms(2) l by simp
  moreover have "put (trade_row e td q p a n ! 3) (if 3 < length old then old ! 3 else Blank)
      = Some (r ! 3)"
    by (rule put_row_nth[OF assms(1)]) (simp add: l)
  then have "r ! 3 = Num q" by (simp add: trade_row_def)
  moreover have "put (trade_row e td q p a n ! 6) (if 6 < length old then old ! 6 else Blank)
      = Some (r ! 6)"
    by (rule put_row_nth[OF assms(1)]) (simp add: l)
  then have "r ! 6 = Str (calculate_running_balance_formula n)" by (simp add: trade_row_def)
  ultimately show ?thesis by (simp add: is_trade_row_def)
qed

lemma update_last: "xs \<noteq> [] \<Longrightarrow> xs[length xs - 1 := r] = take (length xs - 1) xs @ [r]"
  by (induction xs rule: rev_induct) simp_all

text \<open>
  On a wallet sheet a successful \<open>add_trade\<close> writes row 6 when the sheet has no trade
  row and the last row otherwise.
\<close>

lemma add_trade_ws:
  assumes "wallet_sheet w sh" "fst (add_trade e td sh)"
  shows "\<exists>r. is_trade_row (max 6 (length sh)) r \<and>
             add_trade e td sh = (True, take (max 6 (length sh) - 1) sh @ [r])"
proof -
  let ?n = "max 6 (length sh)"
  from assms(2) obtain q p a where
    v: "values_ok e" "update_ok e" and q: "py_float (dict_get (td_quantity td) (PNum 0)) = Some q"
    and p: "py_float (dict_get (td_price td) (PNum 0)) = Some p"
    and a: "py_upper (dict_get (td_action td) (PStr [])) = Some a"
    and c: "PContainer \<notin> set (trade_row e td q p a ?n)"
    by (auto simp: add_trade_succeeds container_in_trade_row)
  let ?vs = "trade_row e td q p a ?n"
  let ?sh' = "sh @ replicate (?n - length sh) []"
  have at: "add_trade e td sh = update_range e ?n ?vs sh"
    using v q p a by (simp add: add_trade_def Let_def next_row_ws[OF assms(1)])
  obtain r where r: "put_row ?vs (?sh' ! (?n - 1)) = Some r"
    using c put_row_refused[of ?vs "?sh' ! (?n - 1)"] by (cases "put_row ?vs (?sh' ! (?n - 1))") auto
  have ur: "update_range e ?n ?vs sh = (True, ?sh'[?n - 1 := r])"
    using v r by (simp add: update_range_def Let_def)
  have len: "5 \<le> length sh" by (rule ws_length[OF assms(1)])
  show ?thesis
  proof (cases "length sh = 5")
    case True
    then have n: "?n = 6" by simp
    have o: "?sh' ! (?n - 1) = []" using True by (simp add: nth_append)
    have "is_trade_row ?n r" using r unfolding o by (rule put_trade_row) simp
    moreover have "(sh @ [[]])[length sh := r] = sh @ [r]" by simp
    then have "?sh'[?n - 1 := r] = take (?n - 1) sh @ [r]" using True by simp
    ultimately show ?thesis using at ur by auto
  next
    case False
    then have g: "6 \<le> length sh" using len by simp
    then have n: "?n = length sh" by simp
    have s: "?sh' = sh" using g by simp
    have "is_trade_row (length sh) (sh ! (length sh - 1))"
      using g by (intro ws_row[OF assms(1)]) simp_all
    then have "length (sh ! (length sh - 1)) \<le> 8" by (simp add: is_trade_row_def)
    then have "is_trade_row ?n r" using r unfolding s n by (intro put_trade_row) simp_all
    moreover have "sh \<noteq> []" using g by auto
    then have "sh[length sh - 1 := r] = take (length sh - 1) sh @ [r]" by (rule update_last)
    then have "?sh'[?n - 1 := r] = take (?n - 1) sh @ [r]" using g by (simp add: max_def)
    ultimately show ?thesis using at ur by auto
  qed
qed

lemma ws_new: "wallet_sheet w (header_rows w)"
  by (simp add: wallet_sheet_def header_rows_eq)

lemma ws_add_trade:
  assumes "wallet_sheet w sh"
  shows "wallet_sheet w (snd (add_trade e td sh))"
proof (cases "fst (add_trade e td sh)")
  case False
  then show ?thesis using assms by (simp add: add_trade_fails)
next
  case True
  let ?n = "max 6 (length sh)"
  from add_trade_ws[OF assms True] obtain r where
    r: "is_trade_row ?n r" and eq: "add_trade e td sh = (True, take (?n - 1) sh @ [r])"
    by blast
  let ?sh' = "take (?n - 1) sh @ [r]"
  have len: "5 \<le> length sh" by (rule ws_length[OF assms])
  have l': "length ?sh' = ?n" using len by auto
  have h: "take 5 ?sh' = header_rows w"
    using assms len by (simp add: wallet_sheet_def min_def)
  have "is_trade_row k (?sh' ! (k - 1))" if k: "6 \<le> k" "k \<le> ?n" for k
  proof (cases "k = ?n")
    case True
    then show ?thesis using r len by (simp add: nth_append)
  next
    case False
    then have kl: "k < ?n" using k by simp
    then have "k \<le> length sh" using k by (simp add: max_def split: if_splits)
    then have "is_trade_row k (sh ! (k - 1))" using k by (intro ws_row[OF assms]) simp_all
    moreover have "k - 1 < ?n - 1" using kl k by arith
    then have "?sh' ! (k - 1) = sh ! (k - 1)" using len by (simp add: nth_append)
    ultimately show ?thesis by simp
  qed
  then have "list_all (\<lambda>k. is_trade_row k (?sh' ! (k - 1))) [6..<Suc (length ?sh')]"
    unfolding l' by (simp add: list_all_iff)
  then show ?thesis using h eq by (simp add: wallet_sheet_def)
qed

text \<open>A wallet sheet never has more than one trade row after an \<open>add_trade\<close>.\<close>

lemma add_trade_length:
  assumes "wallet_sheet w sh"
  shows "length (snd (add_trade e td sh)) =
           (if fst (add_trade e td sh) then max 6 (length sh) else length sh)"
proof (cases "fst (add_trade e td sh)")
  case False
  then show ?thesis by (simp add: add_trade_fails)
next
  case True
  from add_trade_ws[OF assms True] obtain r where
    "add_trade e td sh = (True, take (max 6 (length sh) - 1) sh @ [r])" by blast
  then show ?thesis using ws_length[OF assms] by auto
qed

section \<open>What is read from a wallet sheet\<close>

lemma ws_history: "wallet_sheet w sh \<Longrightarrow> get_trade_history e limit sh = []"
proof (rule history_formula_rows)
  fix r assume w: "wallet_sheet w sh" and "r \<in> set (drop 5 sh)"
  then obtain n where "is_trade_row n r" using ws_drop by blast
  then show "6 < length r \<and> (\<exists>s. r ! 6 = Str (CHR ''='' # s))"
    using running_formula[of n] by (auto simp: is_trade_row_def)
qed

lemma headers_performance:
  assumes "take 5 sh = header_rows w"
  shows "get_wallet_performance e w' sh =
           \<lparr>name = w', initial_investment = 0, current_value = 0, total_return = 0,
            total_return_pct = 0, apy = 0\<rparr>"
proof -
  have "length (take 5 sh) = 5" using assms by (simp add: header_rows_eq)
  then have l: "5 \<le> length sh" by simp
  have "sh ! 1 = take 5 sh ! 1" by simp
  then have r: "sh ! 1 = header_rows w ! 1" using assms by simp
  have c: "acell sh cell_B2 = Str initial_investment_formula"
    "acell sh cell_D2 = Str current_value_formula"
    "acell sh cell_F2 = Str total_return_formula"
    "acell sh cell_H2 = Str apy_formula"
    using l r by (simp_all add: acell_def cell_at_def cell_B2_def cell_D2_def cell_F2_def
        cell_H2_def colB_def colD_def colF_def colH_def header_rows_eq)
  have "get_cell_value e sh cell_B2 0 = 0" "get_cell_value e sh cell_D2 0 = 0"
    "get_cell_value e sh cell_F2 0 = 0" "get_cell_value e sh cell_H2 0 = 0"
    using c summary_formulas by (auto simp: get_cell_value_formula)
  then show ?thesis by (simp add: get_wallet_performance_def)
qed

lemma ws_performance:
  "wallet_sheet w sh \<Longrightarrow>
   get_wallet_performance e w' sh =
     \<lparr>name = w', initial_investment = 0, current_value = 0, total_return = 0,
      total_return_pct = 0, apy = 0\<rparr>"
  by (rule headers_performance) (simp add: wallet_sheet_def)

section \<open>Evaluation on the sample inputs\<close>

lemma upper_actions:
  "upper ''BUY'' = ''BUY''" "upper ''SELL'' = ''SELL''" "upper ''HOLD'' = ''HOLD''"
  by (simp_all add: upper_def upper_char_def)

lemma online_ok: "values_ok online" "update_ok online" "acell_ok online a"
  by (simp_all add: online_def)

lemma length_new_wallet: "length (new_wallet w) = 5"
  by (simp add: new_wallet_eq header_rows_eq)

lemma ws_new_wallet: "wallet_sheet w (new_wallet w)"
  by (simp add: new_wallet_eq ws_new)

lemma add_trade_new_wallet:
  "next_row (get_all_values (new_wallet w)) = 6"
  using next_row_ws[OF ws_new_wallet, of w] by (simp add: length_new_wallet)

lemma update_at_end: "length xs = n \<Longrightarrow> (xs @ [y])[n := r] = xs @ [r]"
  by auto

lemma after_buy_eq:
  "after_buy = new_wallet ''W'' @
     [[Str ''2024-01-01'', Str ''BUY'', Str ''BTC'', Num 1, Num 1000, Num 1000,
       Str (calculate_running_balance_formula 6), Blank]]"
  by (simp add: after_buy_def add_trade_def add_trade_new_wallet update_range_def
      length_new_wallet online_ok buy1000_def trade_row_def dict_get_def upper_actions nth_append
      update_at_end)

lemma ws_after_buy: "wallet_sheet ''W'' after_buy"
  unfolding after_buy_def by (rule ws_add_trade) (rule ws_new_wallet)

lemma length_after_buy: "length after_buy = 6"
  by (simp add: after_buy_eq length_new_wallet)

lemma after_buy_sell_eq:
  "after_buy_sell = new_wallet ''W'' @
     [[Str ''2024-01-02'', Str ''SELL'', Str ''BTC'', Num 1, Num 1200, Num 1200,
       Str (calculate_running_balance_formula 6), Blank]]"
proof -
  have n: "next_row (get_all_values after_buy) = 6"
    using next_row_ws[OF ws_after_buy] by (simp add: length_after_buy)
  have "add_trade online sell1200 after_buy =
      (True, new_wallet ''W'' @
     [[Str ''2024-01-02'', Str ''SELL'', Str ''BTC'', Num 1, Num 1200, Num 1200,
       Str (calculate_running_balance_formula 6), Blank]])"
    by (simp add: add_trade_def n update_range_def length_after_buy online_ok sell1200_def
        trade_row_def dict_get_def upper_actions)
      (simp add: after_buy_eq length_new_wallet nth_append update_at_end)
  then show ?thesis by (simp add: after_buy_sell_def)
qed

lemma after_btc_buy_eq:
  "after_btc_buy = new_wallet ''Wallet_Arbitrage'' @
     [[Str ''2024-06-15'', Str ''BUY'', Str ''BTC'', Num 0.5, Num 67000, Num 33500,
       Str (calculate_running_balance_formula 6), Str ''Initial BTC position'']]"
  by (simp add: after_btc_buy_def add_trade_def add_trade_new_wallet update_range_def
      length_new_wallet online_ok btc_buy_def trade_row_def dict_get_def upper_actions nth_append
      update_at_end)

lemmas num_eval =
  py_float_str_def clean_def strip_def is_space_def sign_of_def digit_val_def exponent_def
  scale10_def

lemmas sheet_eval =
  get_all_values_def trim_def get_trade_history_def parse_row_def float_or_zero_def any_row_def
  apply_limit_def get_wallet_performance_def get_cell_value_def acell_def cell_at_def
  cell_B2_def cell_D2_def cell_F2_def cell_H2_def colA_def colB_def colD_def colF_def colG_def
  colH_def

lemma prepared_performance:
  "get_wallet_performance online ''W'' prepared =
     \<lparr>name = ''W'', initial_investment = 1000, current_value = 1500, total_return = 500,
      total_return_pct = 50, apy = 12.5\<rparr>"
  by (simp add: sheet_eval prepared_def online_ok num_eval)

lemma prepared_history:
  "map (\<lambda>t. (action t, asset t, quantity t, running_balance t))
     (get_trade_history online None prepared) =
     [(Str ''BUY'', Str ''BTC'', 1, 1000), (Str ''BUY'', Str ''ETH'', 2, 1500)]"
  by (simp add: sheet_eval prepared_def online_ok num_eval)

lemma prepared_balances:
  "map running_balance (get_trade_history online None prepared) = [1000, 1500]"
proof -
  have "map (\<lambda>x. snd (snd (snd x)))
      (map (\<lambda>t. (action t, asset t, quantity t, running_balance t))
        (get_trade_history online None prepared)) = [1000, 1500]"
    unfolding prepared_history by simp
  then show ?thesis by (simp add: comp_def)
qed

lemma prepared_history_limit:
  "map (\<lambda>t. (action t, asset t, quantity t, running_balance t))
     (get_trade_history online (Some 1) prepared) = [(Str ''BUY'', Str ''ETH'', 2, 1500)]"
  by (simp add: sheet_eval prepared_def online_ok num_eval)

section \<open>Sequences of appends\<close>

lemma ws_add_all: "wallet_sheet w sh \<Longrightarrow> wallet_sheet w (add_all e tds sh)"
  unfolding add_all_def by (induction tds arbitrary: sh) (simp_all add: ws_add_trade)

lemma length_add_all:
  "wallet_sheet w sh \<Longrightarrow> length sh \<le> 6 \<Longrightarrow> length (add_all e tds sh) \<le> 6"
  unfolding add_all_def
proof (induction tds arbitrary: sh)
  case Nil
  then show ?case by simp
next
  case (Cons td tds)
  have "length (snd (add_trade e td sh)) \<le> 6"
    using add_trade_length[OF Cons.prems(1), of e td] Cons.prems(2) by (simp split: if_splits)
  then show ?case using Cons.IH[OF ws_add_trade[OF Cons.prems(1)]] by simp
qed

section \<open>Claims about the ledger of a wallet\<close>

text \<open>
  C1 (running balance chain).  The code diverges from the claim.  On every wallet
  sheet the code has written, a successful \<open>add_trade\<close> leaves a sheet of
  \<open>max 6 (length sh)\<close> rows whose rows above the last are the old ones: the trade goes
  to row 6 of a new wallet and over the last trade row otherwise, because the count of
  rows that are not empty leaves out the empty header row 3.  Column G of the written
  row holds the text of the formula, which \<open>float()\<close> cannot read; no running balance
  is stored, and \<open>get_trade_history\<close> skips the row and returns no trade.  (From a
  sheet prepared by hand, with numbers in column G, it returns them as the running
  balances.)
\<close>

theorem running_balance_not_stored:
  assumes "wallet_sheet w sh" and "fst (add_trade e td sh)"
  shows "length (snd (add_trade e td sh)) = max 6 (length sh) \<and>
         take (max 6 (length sh) - 1) (snd (add_trade e td sh)) =
           take (max 6 (length sh) - 1) sh \<and>
         cell_at (snd (add_trade e td sh)) colG (max 6 (length sh)) =
           Str (calculate_running_balance_formula (max 6 (length sh))) \<and>
         cell_float (Str (calculate_running_balance_formula (max 6 (length sh)))) = None \<and>
         wallet_sheet w (snd (add_trade e td sh)) \<and>
         get_trade_history e' limit (snd (add_trade e td sh)) = []"
proof -
  let ?n = "max 6 (length sh)"
  from add_trade_ws[OF assms] obtain r where
    r: "is_trade_row ?n r" and eq: "add_trade e td sh = (True, take (?n - 1) sh @ [r])"
    by blast
  have len: "5 \<le> length sh" by (rule ws_length[OF assms(1)])
  have l: "length (take (?n - 1) sh) = ?n - 1" using len by auto
  have g: "cell_at (take (?n - 1) sh @ [r]) colG ?n = Str (calculate_running_balance_formula ?n)"
    using r l by (simp add: cell_at_def colG_def is_trade_row_def nth_append)
  obtain s where "calculate_running_balance_formula ?n = CHR ''='' # s"
    using running_formula by blast
  then have f: "cell_float (Str (calculate_running_balance_formula ?n)) = None"
    by (simp add: formula_no_float)
  have w: "wallet_sheet w (snd (add_trade e td sh))" by (rule ws_add_trade[OF assms(1)])
  have h: "get_trade_history e' limit (snd (add_trade e td sh)) = []" by (rule ws_history[OF w])
  show ?thesis using eq l g f w h by simp
qed

theorem running_balance_not_stored_witness:
  "wallet_sheet ''W'' (new_wallet ''W'') \<and>
   fst (add_trade online buy1000 (new_wallet ''W'')) \<and>
   length (new_wallet ''W'') = 5 \<and>
   length after_buy = 6 \<and>
   cell_at after_buy colB 6 = Str ''BUY'' \<and>
   cell_at after_buy colG 6 = Str (calculate_running_balance_formula 6) \<and>
   get_trade_history online None after_buy = [] \<and>
   fst (add_trade online sell1200 after_buy) \<and>
   length after_buy_sell = 6 \<and>
   take 5 after_buy_sell = take 5 after_buy \<and>
   cell_at after_buy_sell colB 6 = Str ''SELL'' \<and>
   cell_at after_buy_sell colG 6 = Str (calculate_running_balance_formula 6) \<and>
   cell_float (Str (calculate_running_balance_formula 6)) = None \<and>
   get_trade_history online None after_buy_sell = [] \<and>
   map running_balance (get_trade_history online None prepared) = [1000, 1500]"
proof -
  have h1: "wallet_sheet ''W'' (new_wallet ''W'')" by (rule ws_new_wallet)
  have h2: "fst (add_trade online buy1000 (new_wallet ''W''))"
    by (simp add: add_trade_succeeds online_ok buy1000_def dict_get_def)
  have h3: "wallet_sheet ''W'' after_buy" by (rule ws_after_buy)
  have h4: "fst (add_trade online sell1200 after_buy)"
    by (simp add: add_trade_succeeds online_ok sell1200_def dict_get_def)
  note a = running_balance_not_stored[OF h1 h2, of online None, folded after_buy_def]
  note b = running_balance_not_stored[OF h3 h4, of online None, folded after_buy_sell_def]
  have m1: "max 6 (length (new_wallet ''W'')) = 6" by (simp add: length_new_wallet)
  have m2: "max 6 (length after_buy) = 6" by (simp add: length_after_buy)
  have l0: "length (new_wallet ''W'') = 5" by (rule length_new_wallet)
  have a1: "length after_buy = 6" using a[THEN conjunct1] unfolding m1 .
  have a3: "cell_at after_buy colG 6 = Str (calculate_running_balance_formula 6)"
    using a[THEN conjunct2, THEN conjunct2, THEN conjunct1] unfolding m1 .
  have a6: "get_trade_history online None after_buy = []"
    using a[THEN conjunct2, THEN conjunct2, THEN conjunct2, THEN conjunct2, THEN conjunct2] .
  have c1: "length after_buy_sell = 6" using b[THEN conjunct1] unfolding m2 .
  have "take (6 - 1) after_buy_sell = take (6 - 1) after_buy"
    using b[THEN conjunct2, THEN conjunct1] unfolding m2 .
  then have c2: "take 5 after_buy_sell = take 5 after_buy" by simp
  have c3: "cell_at after_buy_sell colG 6 = Str (calculate_running_balance_formula 6)"
    using b[THEN conjunct2, THEN conjunct2, THEN conjunct1] unfolding m2 .
  have c4: "cell_float (Str (calculate_running_balance_formula 6)) = None"
    using b[THEN conjunct2, THEN conjunct2, THEN conjunct2, THEN conjunct1] unfolding m2 .
  have c6: "get_trade_history online None after_buy_sell = []"
    using b[THEN conjunct2, THEN conjunct2, THEN conjunct2, THEN conjunct2, THEN conjunct2] .
  have b1: "cell_at after_buy colB 6 = Str ''BUY''"
    by (simp add: after_buy_eq cell_at_def colB_def length_new_wallet nth_append)
  have b2: "cell_at after_buy_sell colB 6 = Str ''SELL''"
    by (simp add: after_buy_sell_eq cell_at_def colB_def length_new_wallet nth_append)
  show ?thesis
    by (intro conjI) (fact h1 h2 l0 a1 b1 a3 a6 h4 c1 c2 b2 c3 c4 c6 prepared_balances)+
qed

text \<open>
  C3 (cost basis).  The code diverges from the claim.  Cell B2 of a wallet sheet holds
  the text of the \<open>SUMPRODUCT\<close> formula, which the code wrote as raw input; reading it
  with \<open>float()\<close> fails, so \<open>initial_investment\<close> is the default 0 after every sequence
  of trades given to \<open>add_trade\<close> on a new wallet.  After one BUY of total value 1000
  the cost basis reads 0.  (From a sheet prepared by hand, with the number 1000 in B2,
  it reads 1000.)
\<close>

theorem cost_basis_not_computed:
  "acell (add_all e tds (new_wallet w)) cell_B2 = Str initial_investment_formula \<and>
   py_float_str (clean initial_investment_formula) = None \<and>
   initial_investment (get_wallet_performance e' w (add_all e tds (new_wallet w))) = 0 \<and>
   fst (add_trade online buy1000 (new_wallet ''W'')) \<and>
   cell_at after_buy colB 6 = Str ''BUY'' \<and>
   cell_at after_buy colF 6 = Num 1000 \<and>
   initial_investment (get_wallet_performance online ''W'' after_buy) = 0 \<and>
   initial_investment (get_wallet_performance online ''W'' prepared) = 1000"
proof -
  let ?sh = "add_all e tds (new_wallet w)"
  have w: "wallet_sheet w ?sh" by (rule ws_add_all[OF ws_new_wallet])
  then have t: "take 5 ?sh = header_rows w" by (simp add: wallet_sheet_def)
  have l: "5 \<le> length ?sh" by (rule ws_length[OF w])
  have "?sh ! 1 = take 5 ?sh ! 1" by simp
  then have "?sh ! 1 = header_rows w ! 1" using t by simp
  then have c: "acell ?sh cell_B2 = Str initial_investment_formula"
    using l by (simp add: acell_def cell_at_def cell_B2_def colB_def header_rows_eq)
  obtain s where s: "initial_investment_formula = CHR ''='' # s"
    using summary_formulas(1) by blast
  have f: "py_float_str (clean initial_investment_formula) = None"
    unfolding s by (simp add: clean_formula formula_no_float)
  have p: "initial_investment (get_wallet_performance e' w ?sh) = 0"
    by (simp add: ws_performance[OF w])
  have h2: "fst (add_trade online buy1000 (new_wallet ''W''))"
    by (simp add: add_trade_succeeds online_ok buy1000_def dict_get_def)
  have b: "cell_at after_buy colB 6 = Str ''BUY''" "cell_at after_buy colF 6 = Num 1000"
    by (simp_all add: after_buy_eq cell_at_def colB_def colF_def length_new_wallet nth_append)
  have q: "initial_investment (get_wallet_performance online ''W'' after_buy) = 0"
    by (simp add: ws_performance[OF ws_after_buy])
  have r: "initial_investment (get_wallet_performance online ''W'' prepared) = 1000"
    by (simp add: prepared_performance)
  show ?thesis by (intro conjI) (fact c f p h2 b q r)+
qed

text \<open>
  C4 (current value).  The code diverges from the claim.  Cell D2 of a wallet sheet
  holds the text of the \<open>INDEX\<close> formula, so \<open>current_value\<close> is the default 0 after
  every sequence of trades, and so are the other four figures: for the empty ledger
  these are the values the claim states, for a ledger with trades they are not.  After
  the one BUY of 0.5 at 67000 on a new wallet the row holds the total value 33500 and
  the formula text in column G, the history is empty and \<open>current_value\<close> is 0.
  (From a sheet prepared by hand, with \<open>$1,500.00\<close> in D2, it reads 1500.)
\<close>

theorem current_value_not_computed:
  "get_wallet_performance e' w' (add_all e tds (new_wallet w)) =
     \<lparr>name = w', initial_investment = 0, current_value = 0, total_return = 0,
      total_return_pct = 0, apy = 0\<rparr> \<and>
   get_trade_history e' limit (add_all e tds (new_wallet w)) = [] \<and>
   fst (add_trade online btc_buy (new_wallet ''Wallet_Arbitrage'')) \<and>
   cell_at after_btc_buy colF 6 = Num 33500 \<and>
   cell_at after_btc_buy colG 6 = Str (calculate_running_balance_formula 6) \<and>
   current_value (get_wallet_performance online ''Wallet_Arbitrage'' after_btc_buy) = 0 \<and>
   current_value (get_wallet_performance online ''W'' prepared) = 1500"
proof -
  let ?sh = "add_all e tds (new_wallet w)"
  have w: "wallet_sheet w ?sh" by (rule ws_add_all[OF ws_new_wallet])
  have h: "fst (add_trade online btc_buy (new_wallet ''Wallet_Arbitrage''))"
    by (simp add: add_trade_succeeds online_ok btc_buy_def dict_get_def)
  have wb: "wallet_sheet ''Wallet_Arbitrage'' after_btc_buy"
    unfolding after_btc_buy_def by (rule ws_add_trade) (rule ws_new_wallet)
  have c: "cell_at after_btc_buy colF 6 = Num 33500"
    "cell_at after_btc_buy colG 6 = Str (calculate_running_balance_formula 6)"
    by (simp_all add: after_btc_buy_eq cell_at_def colF_def colG_def length_new_wallet nth_append)
  have p: "get_wallet_performance e' w' ?sh =
     \<lparr>name = w', initial_investment = 0, current_value = 0, total_return = 0,
      total_return_pct = 0, apy = 0\<rparr>" by (rule ws_performance[OF w])
  have g: "get_trade_history e' limit ?sh = []" by (rule ws_history[OF w])
  have z: "current_value (get_wallet_performance online ''Wallet_Arbitrage'' after_btc_buy) = 0"
    by (simp add: ws_performance[OF wb])
  have r: "current_value (get_wallet_performance online ''W'' prepared) = 1500"
    by (simp add: prepared_performance)
  show ?thesis by (intro conjI) (fact p g h c z r)+
qed

text \<open>
  C8 (round trip of the trade history).  The code diverges from the claim.  After
  every sequence of trades given to \<open>add_trade\<close> on a new wallet the sheet has at most
  one trade row, and \<open>get_trade_history\<close> returns the empty list for every limit: each
  row the code wrote has the formula text in column G, on which \<open>float()\<close> raises, and
  the row is skipped.  Truncation as such keeps the tail: a positive limit below the
  number of trades read keeps the last \<open>limit\<close> of them.
\<close>

theorem history_round_trip_fails:
  "get_trade_history e' limit (add_all e tds (new_wallet w)) = [] \<and>
   length (add_all e tds (new_wallet w)) \<le> 6 \<and>
   (0 < l \<and> l < int (length ts) \<longrightarrow>
      apply_limit (Some l) ts = drop (length ts - nat l) ts)"
proof -
  let ?sh = "add_all e tds (new_wallet w)"
  have w: "wallet_sheet w ?sh" by (rule ws_add_all[OF ws_new_wallet])
  have "length ?sh \<le> 6"
    by (rule length_add_all[OF ws_new_wallet]) (simp add: length_new_wallet)
  then show ?thesis by (simp add: ws_history[OF w] apply_limit_def)
qed

theorem history_round_trip_fails_witness:
  "fst (add_trade online buy1000 (new_wallet ''W'')) \<and>
   fst (add_trade online sell1200 after_buy) \<and>
   add_all online [buy1000] (new_wallet ''W'') = after_buy \<and>
   add_all online [buy1000, sell1200] (new_wallet ''W'') = after_buy_sell \<and>
   get_trade_history online None after_buy = [] \<and>
   get_trade_history online None after_buy_sell = [] \<and>
   length after_buy_sell \<le> 6 \<and>
   (0::int) < 1 \<and> 1 < int (length (get_trade_history online None prepared)) \<and>
   apply_limit (Some 1) (get_trade_history online None prepared) =
     drop 1 (get_trade_history online None prepared) \<and>
   map (\<lambda>t. (action t, asset t, quantity t, running_balance t))
     (get_trade_history online (Some 1) prepared) = [(Str ''BUY'', Str ''ETH'', 2, 1500)]"
proof -
  have h2: "fst (add_trade online buy1000 (new_wallet ''W''))"
    by (simp add: add_trade_succeeds online_ok buy1000_def dict_get_def)
  have h4: "fst (add_trade online sell1200 after_buy)"
    by (simp add: add_trade_succeeds online_ok sell1200_def dict_get_def)
  have s1: "add_all online [buy1000] (new_wallet ''W'') = after_buy"
    by (simp add: add_all_def after_buy_def)
  have s2: "add_all online [buy1000, sell1200] (new_wallet ''W'') = after_buy_sell"
    by (simp add: add_all_def after_buy_def after_buy_sell_def)
  have "length (map (\<lambda>t. (action t, asset t, quantity t, running_balance t))
     (get_trade_history online None prepared)) = 2"
    unfolding prepared_history by simp
  then have n: "length (get_trade_history online None prepared) = 2" by simp
  have n0: "(0::int) < 1" by simp
  have n1: "1 < int (length (get_trade_history online None prepared))" unfolding n by simp
  note a = history_round_trip_fails[of online None online "[buy1000]" "''W''" 1
      "get_trade_history online None prepared", unfolded s1]
  note b = history_round_trip_fails[of online None online "[buy1000, sell1200]" "''W''" 1
      "get_trade_history online None prepared", unfolded s2]
  have "apply_limit (Some 1) (get_trade_history online None prepared) =
     drop (length (get_trade_history online None prepared) - nat 1)
       (get_trade_history online None prepared)"
    using a[THEN conjunct2, THEN conjunct2] n0 n1 by blast
  then have c: "apply_limit (Some 1) (get_trade_history online None prepared) =
     drop 1 (get_trade_history online None prepared)"
    unfolding n by simp
  note a1 = a[THEN conjunct1] and b1 = b[THEN conjunct1] and b2 = b[THEN conjunct2, THEN conjunct1]
  show ?thesis
    by (intro conjI) (fact h2 h4 s1 s2 a1 b1 b2 n0 n1 c prepared_history_limit)+
qed

section \<open>Claims about the performance figures\<close>



section \<open>Claims about the portfolio summary\<close>

lemma summary_loop_eq:
  "summary_loop e pm ws (tv, ti, acc) =
     (tv + sum_list (map (\<lambda>w. current_value (get_wallet_performance e w (worksheet pm w))) ws),
      ti + sum_list (map (\<lambda>w. initial_investment (get_wallet_performance e w (worksheet pm w))) ws),
      acc @ map (\<lambda>w. get_wallet_performance e w (worksheet pm w)) ws)"
  by (induction ws arbitrary: tv ti acc) (simp_all add: Let_def algebra_simps)

lemma performance_name: "name (get_wallet_performance e w sh) = w"
  by (simp add: get_wallet_performance_def Let_def)

text \<open>
  C9 (portfolio summary).  The summary lists the performance record of every wallet in
  the order of \<open>wallet_managers\<close> (to which \<open>add_wallet\<close> appends a new name at the end);
  \<open>total_portfolio_value\<close> and \<open>total_invested\<close> are the sums of \<open>current_value\<close> and
  \<open>initial_investment\<close> over these records, the return is their difference, and the
  return percentage follows the zero-guard rule of the wallets.  The summary is a
  function of the portfolio alone: \<open>get_portfolio_summary\<close> and
  \<open>get_wallet_performance\<close> only read cells, so no worksheet changes.
\<close>

theorem portfolio_summary_totals:
  "wallets (get_portfolio_summary e pm) =
     map (\<lambda>w. get_wallet_performance e w (worksheet pm w)) (wallet_managers pm) \<and>
   map name (wallets (get_portfolio_summary e pm)) = wallet_managers pm \<and>
   total_portfolio_value (get_portfolio_summary e pm) =
     sum_list (map current_value (wallets (get_portfolio_summary e pm))) \<and>
   total_invested (get_portfolio_summary e pm) =
     sum_list (map initial_investment (wallets (get_portfolio_summary e pm))) \<and>
   portfolio_return (get_portfolio_summary e pm) =
     total_portfolio_value (get_portfolio_summary e pm) - total_invested (get_portfolio_summary e pm) \<and>
   portfolio_return_pct (get_portfolio_summary e pm) =
     (if 0 < total_invested (get_portfolio_summary e pm)
      then (total_portfolio_value (get_portfolio_summary e pm) /
            total_invested (get_portfolio_summary e pm) - 1) * 100
      else 0) \<and>
   num_wallets (get_portfolio_summary e pm) = length (wallet_managers pm) \<and>
   wallet_managers (add_wallet e w pm) =
     (if w \<in> set (wallet_managers pm) then wallet_managers pm else wallet_managers pm @ [w])"
  by (simp add: get_portfolio_summary_def summary_loop_eq Let_def comp_def performance_name
      add_wallet_def diff_divide_distrib)

section \<open>Claims about validation\<close>

lemma py_upper_some: "(py_upper v = Some u) = (\<exists>a. v = PStr a \<and> u = upper a)"
  by (cases v) auto

lemma py_upper_none: "(py_upper v = None) = (\<forall>a. v \<noteq> PStr a)"
  by (cases v) auto

lemma validate_iff:
  "(validate_trade_data td = Accept) =
     (\<exists>a s q p. td_action td = Some (PStr a) \<and> td_asset td = Some s \<and>
        td_quantity td = Some q \<and> td_price td = Some p \<and> floatable q \<and> floatable p \<and>
        (upper a = ''BUY'' \<or> upper a = ''SELL''))"
  by (auto simp: validate_trade_data_def py_upper_some split: option.splits)

lemma update_range_written:
  assumes "update_ok e" "PContainer \<notin> set vs" "0 < n"
  shows "fst (update_range e n vs sh)"
    and "i < length vs \<Longrightarrow> vs ! i \<noteq> PNone \<Longrightarrow>
         put (vs ! i) Blank = Some (cell_at (snd (update_range e n vs sh)) i n)"
proof -
  let ?sh' = "sh @ replicate (n - length sh) []"
  obtain r where r: "put_row vs (?sh' ! (n - 1)) = Some r"
    using assms(2) put_row_refused[of vs "?sh' ! (n - 1)"]
    by (cases "put_row vs (?sh' ! (n - 1))") auto
  have u: "update_range e n vs sh = (True, ?sh'[n - 1 := r])"
    using assms(1) r by (simp add: update_range_def Let_def)
  show "fst (update_range e n vs sh)" using u by simp
  have l: "n - 1 < length ?sh'" using assms(3) by auto
  have l2: "n \<le> length (?sh'[n - 1 := r])" by auto
  show "put (vs ! i) Blank = Some (cell_at (snd (update_range e n vs sh)) i n)"
    if i: "i < length vs" "vs ! i \<noteq> PNone"
  proof -
    have "put (vs ! i) (if i < length (?sh' ! (n - 1)) then ?sh' ! (n - 1) ! i else Blank)
        = Some (r ! i)" by (rule put_row_nth[OF r i(1)])
    then have "put (vs ! i) Blank = Some (r ! i)" using i(2) by (cases "vs ! i") simp_all
    moreover have "i < length r" using put_row_length[OF r] i(1) by simp
    then have "cell_at (?sh'[n - 1 := r]) i n = r ! i"
      using l l2 assms(3) unfolding cell_at_def by simp
    ultimately show ?thesis using u by simp
  qed
qed

text \<open>
  C7 (quantity is not checked), as amended.  \<open>_validate_trade_data\<close> accepts exactly the
  dictionaries with the four required keys whose quantity and price \<open>float()\<close> converts
  and whose action is a string that reads BUY or SELL in upper case; the sign of the
  quantity plays no role.  \<open>add_trade\<close> does not check it either: whenever quantity and
  price convert to the numbers \<open>x\<close> and \<open>y\<close>, the action is a string or missing, the API
  calls return and no value is a container, it writes the row, with \<open>x\<close> in column D
  and \<open>y\<close> in column E, and returns \<open>True\<close>.
\<close>

theorem quantity_not_checked:
  "((validate_trade_data td = Accept) =
     (\<exists>a s q p. td_action td = Some (PStr a) \<and> td_asset td = Some s \<and>
        td_quantity td = Some q \<and> td_price td = Some p \<and> floatable q \<and> floatable p \<and>
        (upper a = ''BUY'' \<or> upper a = ''SELL''))) \<and>
   (values_ok e \<and> update_ok e \<and>
    py_float (dict_get (td_quantity td) (PNum 0)) = Some x \<and>
    py_float (dict_get (td_price td) (PNum 0)) = Some y \<and>
    py_upper (dict_get (td_action td) (PStr [])) = Some a \<and>
    td_date td \<noteq> Some PContainer \<and> td_asset td \<noteq> Some PContainer \<and>
    td_total_value td \<noteq> Some PContainer \<and> td_notes td \<noteq> Some PContainer \<longrightarrow>
      add_trade e td sh =
        update_range e (next_row (get_all_values sh))
          (trade_row e td x y a (next_row (get_all_values sh))) sh \<and>
      fst (add_trade e td sh) \<and>
      cell_at (snd (add_trade e td sh)) 1 (next_row (get_all_values sh)) = Str a \<and>
      cell_at (snd (add_trade e td sh)) 3 (next_row (get_all_values sh)) = Num x \<and>
      cell_at (snd (add_trade e td sh)) 4 (next_row (get_all_values sh)) = Num y)"
proof -
  let ?n = "next_row (get_all_values sh)"
  have "add_trade e td sh = update_range e ?n (trade_row e td x y a ?n) sh \<and>
      fst (add_trade e td sh) \<and>
      cell_at (snd (add_trade e td sh)) 1 ?n = Str a \<and>
      cell_at (snd (add_trade e td sh)) 3 ?n = Num x \<and>
      cell_at (snd (add_trade e td sh)) 4 ?n = Num y"
    if h: "values_ok e" "update_ok e" "py_float (dict_get (td_quantity td) (PNum 0)) = Some x"
      "py_float (dict_get (td_price td) (PNum 0)) = Some y"
      "py_upper (dict_get (td_action td) (PStr [])) = Some a"
      "td_date td \<noteq> Some PContainer" "td_asset td \<noteq> Some PContainer"
      "td_total_value td \<noteq> Some PContainer" "td_notes td \<noteq> Some PContainer"
  proof -
    let ?vs = "trade_row e td x y a ?n"
    have eq: "add_trade e td sh = update_range e ?n ?vs sh"
      using h by (simp add: add_trade_def Let_def)
    have c: "PContainer \<notin> set ?vs" using h by (simp add: container_in_trade_row)
    have n: "0 < ?n" by (simp add: next_row_def)
    note u = update_range_written[OF h(2) c n, where sh = sh]
    have "put (?vs ! 1) Blank = Some (cell_at (snd (update_range e ?n ?vs sh)) 1 ?n)"
      by (rule u(2)) (simp_all add: trade_row_def)
    then have c1: "cell_at (snd (update_range e ?n ?vs sh)) 1 ?n = Str a"
      by (simp add: trade_row_def)
    have "put (?vs ! 3) Blank = Some (cell_at (snd (update_range e ?n ?vs sh)) 3 ?n)"
      by (rule u(2)) (simp_all add: trade_row_def)
    then have c3: "cell_at (snd (update_range e ?n ?vs sh)) 3 ?n = Num x"
      by (simp add: trade_row_def)
    have "put (?vs ! 4) Blank = Some (cell_at (snd (update_range e ?n ?vs sh)) 4 ?n)"
      by (rule u(2)) (simp_all add: trade_row_def)
    then have c4: "cell_at (snd (update_range e ?n ?vs sh)) 4 ?n = Num y"
      by (simp add: trade_row_def)
    show ?thesis using eq u(1) c1 c3 c4 by simp
  qed
  then show ?thesis using validate_iff[of td] by blast
qed

theorem quantity_not_checked_witness:
  "values_ok online \<and> update_ok online \<and>
   td_quantity negative_quantity = Some (PNum (- 2)) \<and>
   td_price negative_quantity = Some (PNum 100) \<and>
   td_action negative_quantity = Some (PStr ''BUY'') \<and>
   validate_trade_data negative_quantity = Accept \<and>
   validate_trade_data hold_trade \<noteq> Accept \<and>
   next_row (get_all_values (new_wallet ''W'')) = 6 \<and>
   fst (add_trade online negative_quantity (new_wallet ''W'')) \<and>
   cell_at (snd (add_trade online negative_quantity (new_wallet ''W''))) 3 6 = Num (- 2)"
proof -
  have h: "values_ok online" "update_ok online"
    "td_quantity negative_quantity = Some (PNum (- 2))"
    "td_price negative_quantity = Some (PNum 100)"
    "td_action negative_quantity = Some (PStr ''BUY'')"
    by (simp_all add: online_ok negative_quantity_def)
  have g: "values_ok online \<and> update_ok online \<and>
    py_float (dict_get (td_quantity negative_quantity) (PNum 0)) = Some (- 2) \<and>
    py_float (dict_get (td_price negative_quantity) (PNum 0)) = Some 100 \<and>
    py_upper (dict_get (td_action negative_quantity) (PStr [])) = Some ''BUY'' \<and>
    td_date negative_quantity \<noteq> Some PContainer \<and> td_asset negative_quantity \<noteq> Some PContainer \<and>
    td_total_value negative_quantity \<noteq> Some PContainer \<and>
    td_notes negative_quantity \<noteq> Some PContainer"
    by (simp add: online_ok negative_quantity_def dict_get_def upper_actions)
  note t = quantity_not_checked[of negative_quantity online "- 2" 100 "''BUY''" "new_wallet ''W''"]
  note t' = quantity_not_checked[of hold_trade online "- 2" 100 "''BUY''" "new_wallet ''W''"]
  have "\<exists>a s q p. td_action negative_quantity = Some (PStr a) \<and>
      td_asset negative_quantity = Some s \<and> td_quantity negative_quantity = Some q \<and>
      td_price negative_quantity = Some p \<and> floatable q \<and> floatable p \<and>
      (upper a = ''BUY'' \<or> upper a = ''SELL'')"
    by (simp add: negative_quantity_def floatable_def upper_actions)
  then have v: "validate_trade_data negative_quantity = Accept"
    using t[THEN conjunct1] by blast
  have "\<not> (\<exists>a s q p. td_action hold_trade = Some (PStr a) \<and>
      td_asset hold_trade = Some s \<and> td_quantity hold_trade = Some q \<and>
      td_price hold_trade = Some p \<and> floatable q \<and> floatable p \<and>
      (upper a = ''BUY'' \<or> upper a = ''SELL''))"
    by (simp add: hold_trade_def upper_actions)
  then have v': "validate_trade_data hold_trade \<noteq> Accept"
    using t'[THEN conjunct1] by blast
  note c = t[THEN conjunct2, THEN mp, OF g]
  have n: "next_row (get_all_values (new_wallet ''W'')) = 6" by (rule add_trade_new_wallet)
  have c2: "fst (add_trade online negative_quantity (new_wallet ''W''))"
    by (rule c[THEN conjunct2, THEN conjunct1])
  have c3: "cell_at (snd (add_trade online negative_quantity (new_wallet ''W''))) 3 6 = Num (- 2)"
    using c[THEN conjunct2, THEN conjunct2, THEN conjunct2, THEN conjunct1] unfolding n .
  show ?thesis by (intro conjI) (fact h v v' n c2 c3)+
qed

text \<open>
  C7, the claim as stated fails: a BUY with quantity -2 passes the validator, and
  \<open>add_trade\<close> on a new wallet returns \<open>True\<close> and stores the row.
\<close>

theorem quantity_not_checked_counterexample:
  "td_quantity negative_quantity = Some (PNum (- 2)) \<and>
   validate_trade_data negative_quantity = Accept \<and>
   add_trade online negative_quantity (new_wallet ''W'') =
     (True, new_wallet ''W'' @
        [[Str ''2024-01-03'', Str ''BUY'', Str ''ETH'', Num (- 2), Num 100, Num (- 200),
          Str (calculate_running_balance_formula 6), Blank]])"
  by (simp add: add_trade_def add_trade_new_wallet update_range_def length_new_wallet online_ok
      negative_quantity_def trade_row_def dict_get_def upper_actions nth_append update_at_end
      validate_trade_data_def floatable_def)

section \<open>Claims about failures of the API\<close>

lemma get_cell_value_fail: "\<not> acell_ok e a \<Longrightarrow> get_cell_value e sh a d = d"
  by (simp add: get_cell_value_def)

text \<open>
  C10 (no exception leaves the wallet operations), as amended.  \<open>add_trade\<close> returns
  \<open>False\<close> and leaves the sheet alone when the API raises, when the update fails, when
  \<open>float()\<close> raises on the quantity or the price and when the action has no \<open>upper\<close>,
  and whenever it returns \<open>False\<close> the sheet is as it was; \<open>get_wallet_performance\<close>
  always returns a record with the wallet's name, in which each figure whose cell could
  not be read is 0 (and the percentage is 0 when B2 could not be read), so the record
  is all zero when none of the four cells could be read; \<open>get_trade_history\<close> returns
  the empty list when the API raises.
\<close>

theorem failures_are_contained:
  "(\<not> values_ok e \<or> \<not> update_ok e \<or>
    \<not> floatable (dict_get (td_quantity td) (PNum 0)) \<or>
    \<not> floatable (dict_get (td_price td) (PNum 0)) \<or>
    py_upper (dict_get (td_action td) (PStr [])) = None \<longrightarrow>
      add_trade e td sh = (False, sh)) \<and>
   (\<not> fst (add_trade e td sh) \<longrightarrow> snd (add_trade e td sh) = sh) \<and>
   name (get_wallet_performance e w sh) = w \<and>
   (\<not> acell_ok e cell_B2 \<longrightarrow>
      initial_investment (get_wallet_performance e w sh) = 0 \<and>
      total_return_pct (get_wallet_performance e w sh) = 0) \<and>
   (\<not> acell_ok e cell_D2 \<longrightarrow> current_value (get_wallet_performance e w sh) = 0) \<and>
   (\<not> acell_ok e cell_F2 \<longrightarrow> total_return (get_wallet_performance e w sh) = 0) \<and>
   (\<not> acell_ok e cell_H2 \<longrightarrow> apy (get_wallet_performance e w sh) = 0) \<and>
   (\<not> acell_ok e cell_B2 \<and> \<not> acell_ok e cell_D2 \<and> \<not> acell_ok e cell_F2 \<and>
    \<not> acell_ok e cell_H2 \<longrightarrow>
      get_wallet_performance e w sh =
        \<lparr>name = w, initial_investment = 0, current_value = 0, total_return = 0,
         total_return_pct = 0, apy = 0\<rparr>) \<and>
   (\<not> values_ok e \<longrightarrow> get_trade_history e limit sh = [])"
proof -
  have n: "py_float v = None" if "\<not> floatable v" for v
    using that by (cases "py_float v") (simp_all add: floatable_def)
  have a: "add_trade e td sh = (False, sh)"
    if "\<not> values_ok e \<or> \<not> update_ok e \<or>
        \<not> floatable (dict_get (td_quantity td) (PNum 0)) \<or>
        \<not> floatable (dict_get (td_price td) (PNum 0)) \<or>
        py_upper (dict_get (td_action td) (PStr [])) = None"
    using that
    by (auto simp: add_trade_def update_range_def Let_def dest: n split: option.splits)
  have b: "snd (add_trade e td sh) = sh" if "\<not> fst (add_trade e td sh)"
    using add_trade_fails[OF that] by simp
  show ?thesis
    using a b
    by (simp add: get_wallet_performance_def Let_def get_cell_value_fail get_trade_history_def)
qed

theorem failures_are_contained_witness:
  "\<not> values_ok offline \<and> \<not> update_ok offline \<and> \<not> acell_ok offline cell_B2 \<and>
   \<not> acell_ok offline cell_D2 \<and> \<not> acell_ok offline cell_F2 \<and> \<not> acell_ok offline cell_H2 \<and>
   \<not> floatable (dict_get (td_quantity garbled) (PNum 0)) \<and>
   add_trade offline buy1000 prepared = (False, prepared) \<and>
   add_trade online garbled prepared = (False, prepared) \<and>
   get_wallet_performance offline ''W'' prepared =
     \<lparr>name = ''W'', initial_investment = 0, current_value = 0, total_return = 0,
      total_return_pct = 0, apy = 0\<rparr> \<and>
   get_trade_history offline None prepared = [] \<and>
   fst (add_trade online buy1000 prepared) \<and>
   get_wallet_performance online ''W'' prepared =
     \<lparr>name = ''W'', initial_investment = 1000, current_value = 1500, total_return = 500,
      total_return_pct = 50, apy = 12.5\<rparr> \<and>
   map running_balance (get_trade_history online None prepared) = [1000, 1500]"
proof -
  have h: "\<not> values_ok offline" "\<not> update_ok offline" "\<not> acell_ok offline cell_B2"
     "\<not> acell_ok offline cell_D2" "\<not> acell_ok offline cell_F2" "\<not> acell_ok offline cell_H2"
    by (simp_all add: offline_def)
  have g: "\<not> floatable (dict_get (td_quantity garbled) (PNum 0))"
    by (simp add: garbled_def dict_get_def floatable_def non_finite_str_def lower_char_def
        num_eval)
  note t1 = failures_are_contained[of offline buy1000 prepared "''W''" None]
  note t2 = failures_are_contained[of online garbled prepared "''W''" None]
  have a1: "add_trade offline buy1000 prepared = (False, prepared)"
    using t1[THEN conjunct1] h(1) by blast
  have a2: "add_trade online garbled prepared = (False, prepared)"
    using t2[THEN conjunct1] g by blast
  have a3: "get_wallet_performance offline ''W'' prepared =
     \<lparr>name = ''W'', initial_investment = 0, current_value = 0, total_return = 0,
      total_return_pct = 0, apy = 0\<rparr>"
    using t1[THEN conjunct2, THEN conjunct2, THEN conjunct2, THEN conjunct2, THEN conjunct2,
        THEN conjunct2, THEN conjunct2, THEN conjunct1] h by blast
  have a4: "get_trade_history offline None prepared = []"
    using t1[THEN conjunct2, THEN conjunct2, THEN conjunct2, THEN conjunct2, THEN conjunct2,
        THEN conjunct2, THEN conjunct2, THEN conjunct2] h(1) by blast
  have a5: "fst (add_trade online buy1000 prepared)"
    by (simp add: add_trade_succeeds online_ok buy1000_def dict_get_def)
  show ?thesis
    by (intro conjI) (fact h g a1 a2 a3 a4 a5 prepared_performance prepared_balances)+
qed

text \<open>
  C10, the claim as stated fails.  On a sheet whose row 2 holds figures, an API whose
  read of D2 raises while the other reads return gives a record with
  \<open>initial_investment\<close> 1000, \<open>current_value\<close> 0 and \<open>total_return_pct\<close> -100: after a
  retrieval failure not every figure is 0.
\<close>

theorem failures_are_contained_counterexample:
  "\<not> acell_ok d2_fails cell_D2 \<and>
   get_wallet_performance d2_fails ''W'' prepared =
     \<lparr>name = ''W'', initial_investment = 1000, current_value = 0, total_return = 500,
      total_return_pct = - 100, apy = 12.5\<rparr>"
  by (simp add: sheet_eval prepared_def d2_fails_def online_def)

section \<open>What the bot connector passes on\<close>










lemma feeds_ok: "values_ok feeds" "update_ok feeds" "acell_ok feeds a"
  by (simp_all add: feeds_def online_def)


lemma sample_verdicts:
  "validate_trade_data buy1000 = Accept" "validate_trade_data sell1200 = Accept"
  "validate_trade_data hold_trade = Reject" "validate_trade_data negative_quantity = Accept"
  by (simp_all add: validate_trade_data_def buy1000_def sell1200_def hold_trade_def
      negative_quantity_def floatable_def upper_actions)




section \<open>The bot registry\<close>

lemma dict_set_keys: "k \<in> fst ` set xs \<Longrightarrow> map fst (dict_set k v xs) = map fst xs"
  by (induction xs) force+

lemma dict_set_keys_new: "k \<notin> fst ` set xs \<Longrightarrow> map fst (dict_set k v xs) = map fst xs @ [k]"
  by (induction xs) auto

lemma map_of_dict_set: "map_of (dict_set k v xs) k' = (if k' = k then Some v else map_of xs k')"
  by (induction xs) auto

lemma map_of_key: "map_of xs k = Some v \<Longrightarrow> k \<in> fst ` set xs"
  by (metis fst_conv image_eqI map_of_SomeD)

lemma process_registered:
  "registered_bots (snd (process_bot_trades e b bc)) =
     (case map_of (registered_bots bc) b of
        None \<Rightarrow> registered_bots bc
      | Some cfg \<Rightarrow>
          dict_set b (cfg\<lparr>last_update := Some (now_iso e), status := ''active''\<rparr>) (registered_bots bc))"
  by (simp add: process_bot_trades_def Let_def split: option.splits prod.splits)

lemma process_keys:
  "map fst (registered_bots (snd (process_bot_trades e b bc))) = map fst (registered_bots bc)"
  by (simp add: process_registered dict_set_keys map_of_key split: option.splits)

lemma process_lookup:
  "map_of (registered_bots (snd (process_bot_trades e b bc))) b' =
     (if b' = b
      then map_option (\<lambda>cfg. cfg\<lparr>last_update := Some (now_iso e), status := ''active''\<rparr>)
             (map_of (registered_bots bc) b)
      else map_of (registered_bots bc) b')"
  by (simp add: process_registered map_of_dict_set split: option.splits)

lemma process_lookup_other:
  "b' \<noteq> b \<Longrightarrow> map_of (registered_bots (snd (process_bot_trades e b bc))) b' = map_of (registered_bots bc) b'"
  by (simp add: process_lookup)

lemma process_lookup_self:
  "map_of (registered_bots bc) b = Some cfg \<Longrightarrow>
   map_of (registered_bots (snd (process_bot_trades e b bc))) b =
     Some (cfg\<lparr>last_update := Some (now_iso e), status := ''active''\<rparr>)"
  by (simp add: process_lookup)

lemma process_fetch_fails:
  "fetch_fails e (snd (process_bot_trades e b bc)) b' = fetch_fails e bc b'"
  by (cases "map_of (registered_bots bc) b")
     (simp_all add: fetch_fails_def process_lookup split: option.splits)

lemma process_fetch:
  "fetch_bot_trades e (snd (process_bot_trades e b bc)) b' = fetch_bot_trades e bc b'"
  by (cases "map_of (registered_bots bc) b")
     (simp_all add: fetch_bot_trades_def simulate_bot_trade_def process_lookup Let_def
        split: option.splits)

lemma process_wallet_of:
  "wallet_of (snd (process_bot_trades e b bc)) b' = wallet_of bc b'"
  by (cases "map_of (registered_bots bc) b")
     (simp_all add: wallet_of_def process_lookup split: option.splits)

lemma pm_add_trade_managers:
  "wallet_managers (snd (pm_add_trade e w td pm)) = wallet_managers pm"
  by (simp add: pm_add_trade_def case_prod_unfold Let_def)

lemma pm_add_trade_success:
  "fst (pm_add_trade e w td pm) = (w \<in> set (wallet_managers pm) \<and> accepted e td)"
  by (simp add: pm_add_trade_def case_prod_unfold Let_def add_trade_accepted)

lemma add_trades_step:
  "add_trades e w (td # tds) (c, pm) =
     add_trades e w tds (if fst (pm_add_trade e w td pm) then c + 1 else c,
                         snd (pm_add_trade e w td pm))"
  by (simp add: case_prod_unfold)

lemma add_trades_managers:
  "wallet_managers (snd (add_trades e w tds (c, pm))) = wallet_managers pm"
  by (induction tds arbitrary: c pm)
     (simp_all add: add_trades_step pm_add_trade_managers del: add_trades.simps(2))

lemma add_trades_count:
  "fst (add_trades e w tds (c, pm)) =
     c + (if w \<in> set (wallet_managers pm) then length (filter (accepted e) tds) else 0)"
  by (induction tds arbitrary: c pm)
     (simp_all add: add_trades_step pm_add_trade_managers pm_add_trade_success
        del: add_trades.simps(2))

lemma add_trades_success:
  "(0 < fst (add_trades e w tds (0, pm))) =
     (w \<in> set (wallet_managers pm) \<and> list_ex (accepted e) tds)"
  by (auto simp: add_trades_count list_ex_iff filter_empty_conv)

lemma fetch_unregistered:
  "map_of (registered_bots bc) b = None \<Longrightarrow> fetch_bot_trades e bc b = []"
  by (simp add: fetch_bot_trades_def)

lemma process_result: "fst (process_bot_trades e b bc) = ingests e bc b"
proof (cases "map_of (registered_bots bc) b")
  case None
  then show ?thesis
    by (simp add: process_bot_trades_def ingests_def fetch_unregistered)
next
  case (Some cfg)
  then show ?thesis
    using add_trades_success[of e "wallet_name cfg" "fetch_bot_trades e bc b" "portfolio bc"]
    by (simp add: process_bot_trades_def ingests_def wallet_of_def Let_def case_prod_unfold)
qed

lemma process_portfolio:
  "portfolio (snd (process_bot_trades e b bc)) =
     snd (add_trades e (wallet_of bc b) (fetch_bot_trades e bc b) (0, portfolio bc))"
proof (cases "map_of (registered_bots bc) b")
  case None
  then show ?thesis by (simp add: process_bot_trades_def fetch_unregistered)
next
  case (Some cfg)
  then show ?thesis
    by (simp add: process_bot_trades_def wallet_of_def Let_def case_prod_unfold)
qed

lemma process_managers:
  "wallet_managers (portfolio (snd (process_bot_trades e b bc))) = wallet_managers (portfolio bc)"
  by (simp add: process_portfolio add_trades_managers)

lemma process_ingests: "ingests e (snd (process_bot_trades e b bc)) b' = ingests e bc b'"
  by (simp add: ingests_def process_fetch process_wallet_of process_managers)

lemma fetch_fails_empty: "fetch_fails e bc b \<Longrightarrow> fetch_bot_trades e bc b = []"
  by (auto simp: fetch_fails_def fetch_bot_trades_def split: option.splits http_response.splits)

lemma fetch_fails_ingests: "fetch_fails e bc b \<Longrightarrow> \<not> ingests e bc b"
  by (simp add: ingests_def fetch_fails_empty)

lemma loop_step:
  "update_loop e (b # bs) (res, bc) =
     update_loop e bs (dict_set b (fst (process_bot_trades e b bc)) res, snd (process_bot_trades e b bc))"
  by (simp add: case_prod_unfold Let_def)

lemma loop_keys:
  "map fst (registered_bots (snd (update_loop e ns (res, bc)))) = map fst (registered_bots bc)"
  by (induction ns arbitrary: res bc) (simp_all add: loop_step process_keys del: update_loop.simps(2))

lemma loop_lookup_other:
  "b \<notin> set ns \<Longrightarrow>
   map_of (registered_bots (snd (update_loop e ns (res, bc)))) b = map_of (registered_bots bc) b"
  by (induction ns arbitrary: res bc)
     (simp_all add: loop_step process_lookup_other del: update_loop.simps(2))

lemma loop_status:
  "b \<in> set ns \<Longrightarrow> distinct ns \<Longrightarrow> b \<in> fst ` set (registered_bots bc) \<Longrightarrow>
   \<exists>cfg. map_of (registered_bots (snd (update_loop e ns (res, bc)))) b = Some cfg \<and>
         status cfg = ''active'' \<and> last_update cfg = Some (now_iso e)"
proof (induction ns arbitrary: res bc)
  case Nil
  then show ?case by simp
next
  case (Cons x xs)
  show ?case
  proof (cases "b = x")
    case True
    from Cons.prems(3) obtain cfg where c: "map_of (registered_bots bc) b = Some cfg"
      by (metis weak_map_of_SomeI imageE prod.collapse)
    have "b \<notin> set xs" using Cons.prems(2) True by simp
    then show ?thesis
      using True process_lookup_self[OF c, of e]
      by (simp add: loop_step loop_lookup_other del: update_loop.simps(2))
  next
    case False
    then have "b \<in> set xs" "distinct xs" using Cons.prems by simp_all
    moreover have "b \<in> fst ` set (registered_bots (snd (process_bot_trades e x bc)))"
      using Cons.prems(3) process_keys[of e x bc] by (metis list.set_map)
    ultimately show ?thesis
      using Cons.IH by (simp add: loop_step del: update_loop.simps(2))
  qed
qed

lemma loop_result_keys:
  "distinct ns \<Longrightarrow> set ns \<inter> fst ` set res = {} \<Longrightarrow>
   map fst (fst (update_loop e ns (res, bc))) = map fst res @ ns"
proof (induction ns arbitrary: res bc)
  case Nil
  then show ?case by simp
next
  case (Cons x xs)
  have x: "x \<notin> fst ` set res" using Cons.prems(2) by auto
  let ?res = "dict_set x (fst (process_bot_trades e x bc)) res"
  have k: "map fst ?res = map fst res @ [x]" by (rule dict_set_keys_new[OF x])
  then have "fst ` set ?res = insert x (fst ` set res)" by (metis list.set_map set_append list.set(1,2) Un_insert_right sup_bot.right_neutral)
  then have "set xs \<inter> fst ` set ?res = {}" using Cons.prems by auto
  moreover have "distinct xs" using Cons.prems(1) by simp
  ultimately show ?case using Cons.IH k by (simp add: loop_step del: update_loop.simps(2))
qed

lemma loop_result_other:
  "b \<notin> set ns \<Longrightarrow> map_of (fst (update_loop e ns (res, bc))) b = map_of res b"
  by (induction ns arbitrary: res bc)
     (simp_all add: loop_step map_of_dict_set del: update_loop.simps(2))

lemma loop_result:
  "b \<in> set ns \<Longrightarrow> distinct ns \<Longrightarrow>
   map_of (fst (update_loop e ns (res, bc))) b = Some (ingests e bc b)"
proof (induction ns arbitrary: res bc)
  case Nil
  then show ?case by simp
next
  case (Cons x xs)
  show ?case
  proof (cases "b = x")
    case True
    then have "b \<notin> set xs" using Cons.prems(2) by simp
    then show ?thesis
      using True
      by (simp add: loop_step loop_result_other map_of_dict_set process_result
          del: update_loop.simps(2))
  next
    case False
    then have "b \<in> set xs" "distinct xs" using Cons.prems by simp_all
    then have "map_of (fst (update_loop e xs (dict_set x (fst (process_bot_trades e x bc)) res,
        snd (process_bot_trades e x bc)))) b = Some (ingests e (snd (process_bot_trades e x bc)) b)"
      by (rule Cons.IH)
    then show ?thesis by (simp add: loop_step process_ingests del: update_loop.simps(2))
  qed
qed

lemma loop_portfolio:
  "portfolio (snd (update_loop e ns (res, bc))) =
     foldl (\<lambda>pm b. snd (add_trades e (wallet_of bc b) (fetch_bot_trades e bc b) (0, pm)))
       (portfolio bc) ns"
proof (induction ns arbitrary: res bc)
  case Nil
  then show ?case by simp
next
  case (Cons x xs)
  let ?bc' = "snd (process_bot_trades e x bc)"
  have "portfolio (snd (update_loop e xs (dict_set x (fst (process_bot_trades e x bc)) res, ?bc')))
      = foldl (\<lambda>pm b. snd (add_trades e (wallet_of ?bc' b) (fetch_bot_trades e ?bc' b) (0, pm)))
          (portfolio ?bc') xs"
    by (rule Cons.IH)
  then show ?case
    by (simp add: loop_step process_wallet_of process_fetch process_portfolio
        del: update_loop.simps(2))
qed

lemma fetch_fails_registered: "fetch_fails e bc b \<Longrightarrow> b \<in> set (map fst (registered_bots bc))"
  by (auto simp: fetch_fails_def split: option.splits dest: map_of_key)

lemma three_bots_registered:
  "registered_bots three_bots =
     [(''bot1'', \<lparr>wallet_name = ''Wallet_Arbitrage'',
          api_endpoint = Some ''https://bot1.example/trades'', api_key = None,
          last_update = None, status = ''registered''\<rparr>),
      (''bot2'', \<lparr>wallet_name = ''Wallet_DCA'',
          api_endpoint = Some ''https://bot2.example/trades'', api_key = Some ''secret'',
          last_update = None, status = ''registered''\<rparr>),
      (''bot3'', \<lparr>wallet_name = ''Wallet_Grid'',
          api_endpoint = Some ''https://bot3.example/trades'', api_key = None,
          last_update = None, status = ''registered''\<rparr>)]"
  by (simp add: three_bots_def register_bot_def empty_connector_def)

lemma three_bots_portfolio:
  "portfolio three_bots =
     \<lparr>spreadsheet = (\<lambda>t. None)(''Wallet_Arbitrage'' \<mapsto> header_rows ''Wallet_Arbitrage'',
         ''Wallet_DCA'' \<mapsto> header_rows ''Wallet_DCA'',
         ''Wallet_Grid'' \<mapsto> header_rows ''Wallet_Grid''),
      wallet_managers = [''Wallet_Arbitrage'', ''Wallet_DCA'', ''Wallet_Grid'']\<rparr>"
  by (simp add: three_bots_def register_bot_def empty_connector_def add_wallet_def setup_new
      feeds_ok)

lemma three_bots_fetch:
  "fetch_bot_trades feeds three_bots ''bot1'' = [buy1000]"
  "fetch_bot_trades feeds three_bots ''bot2'' = []"
  "fetch_bot_trades feeds three_bots ''bot3'' = [sell1200]"
  by (simp_all add: fetch_bot_trades_def three_bots_registered feeds_def sample_verdicts)

lemma next_row_header: "next_row (get_all_values (header_rows w)) = 6"
  using add_trade_new_wallet[of w] by (simp add: new_wallet_eq)

lemma length_header_rows: "length (header_rows w) = 5"
  by (simp add: header_rows_eq)

lemma add_buy_header:
  "add_trade feeds buy1000 (header_rows w) =
     (True, header_rows w @
        [[Str ''2024-01-01'', Str ''BUY'', Str ''BTC'', Num 1, Num 1000, Num 1000,
          Str (calculate_running_balance_formula 6), Blank]])"
  by (simp add: add_trade_def next_row_header update_range_def length_header_rows feeds_ok
      buy1000_def trade_row_def dict_get_def upper_actions nth_append update_at_end)

lemma add_sell_header:
  "add_trade feeds sell1200 (header_rows w) =
     (True, header_rows w @
        [[Str ''2024-01-02'', Str ''SELL'', Str ''BTC'', Num 1, Num 1200, Num 1200,
          Str (calculate_running_balance_formula 6), Blank]])"
  by (simp add: add_trade_def next_row_header update_range_def length_header_rows feeds_ok
      sell1200_def trade_row_def dict_get_def upper_actions nth_append update_at_end)

lemma three_bots_wallets:
  "wallet_of three_bots ''bot1'' = ''Wallet_Arbitrage''"
  "wallet_of three_bots ''bot2'' = ''Wallet_DCA''"
  "wallet_of three_bots ''bot3'' = ''Wallet_Grid''"
  by (simp_all add: wallet_of_def three_bots_registered)

lemma three_bots_ingested:
  "worksheet (ingest_all feeds three_bots [''bot1'', ''bot2'', ''bot3'']) ''Wallet_Arbitrage'' =
     header_rows ''Wallet_Arbitrage'' @
        [[Str ''2024-01-01'', Str ''BUY'', Str ''BTC'', Num 1, Num 1000, Num 1000,
          Str (calculate_running_balance_formula 6), Blank]]"
  "worksheet (ingest_all feeds three_bots [''bot1'', ''bot2'', ''bot3'']) ''Wallet_DCA'' =
     header_rows ''Wallet_DCA''"
  by (simp_all add: ingest_all_def three_bots_fetch three_bots_wallets three_bots_portfolio
      pm_add_trade_def worksheet_def add_buy_header add_sell_header)

lemma three_bots_statuses:
  "map (\<lambda>(b, cfg). (b, status cfg)) (registered_bots (snd (update_all_bots feeds three_bots))) =
     [(''bot1'', ''active''), (''bot2'', ''active''), (''bot3'', ''active'')]"
proof -
  have p: "registered_bots (snd (update_loop e (b # bs) (res, bc))) =
      registered_bots (snd (update_loop e bs (dict_set b (fst (process_bot_trades e b bc)) res,
        snd (process_bot_trades e b bc))))" for e b bs res bc
    by (simp add: loop_step del: update_loop.simps(2))
  show ?thesis
    unfolding update_all_bots_def three_bots_registered
    apply (simp add: p del: update_loop.simps(2))
    apply (simp add: process_registered three_bots_registered)
    done
qed

lemma sample_accepted: "accepted feeds buy1000" "accepted feeds sell1200"
  by (simp_all add: accepted_def add_trade_succeeds feeds_ok buy1000_def sell1200_def
      dict_get_def)

lemma three_bots_ingests:
  "ingests feeds three_bots ''bot1''" "\<not> ingests feeds three_bots ''bot2''"
  "ingests feeds three_bots ''bot3''"
  by (simp_all add: ingests_def three_bots_wallets three_bots_portfolio three_bots_fetch
      sample_accepted)

lemma three_bots_results:
  "fst (update_all_bots feeds three_bots) = [(''bot1'', True), (''bot2'', False), (''bot3'', True)]"
proof -
  have "fst (update_loop feeds [''bot1'', ''bot2'', ''bot3''] ([], three_bots)) =
      [(''bot1'', True), (''bot2'', False), (''bot3'', True)]"
    by (simp add: loop_step process_result process_ingests three_bots_ingests
        del: update_loop.simps(2))
  then show ?thesis by (simp add: update_all_bots_def three_bots_registered)
qed

lemma three_bots_fails: "fetch_fails feeds three_bots ''bot2''"
  by (simp add: fetch_fails_def three_bots_registered feeds_def)

text \<open>
  C2 (updating all bots), as amended.  For a registry with distinct bot names,
  \<open>update_all_bots\<close> returns one boolean per bot in registration order, every bot stays
  registered, and every bot ends with status \<open>active\<close> and the time of the update.
  The boolean of a bot is \<open>True\<close>
  exactly when its wallet has a manager and \<open>add_trade\<close> succeeded on one of the trades
  fetched for it, so a bot whose fetch fails gets \<open>False\<close>: the failure is reported
  through the boolean, not through the status.  The portfolio that results is the one
  obtained by giving the trades fetched for each bot, bot by bot, to \<open>add_trade\<close> of
  its wallet: the cycle of every bot is run, whatever the outcome of the others.
\<close>

theorem update_all_bots_outcome:
  assumes "distinct (map fst (registered_bots bc))"
  shows "map fst (fst (update_all_bots e bc)) = map fst (registered_bots bc) \<and>
    map fst (registered_bots (snd (update_all_bots e bc))) = map fst (registered_bots bc) \<and>
    (\<forall>(b, cfg) \<in> set (registered_bots (snd (update_all_bots e bc))).
        status cfg = ''active'' \<and> last_update cfg = Some (now_iso e)) \<and>
    (\<forall>b. fetch_fails e bc b \<longrightarrow> map_of (fst (update_all_bots e bc)) b = Some False) \<and>
    (\<forall>b \<in> set (map fst (registered_bots bc)).
        map_of (fst (update_all_bots e bc)) b = Some (ingests e bc b)) \<and>
    portfolio (snd (update_all_bots e bc)) = ingest_all e bc (map fst (registered_bots bc))"
proof -
  let ?ns = "map fst (registered_bots bc)"
  let ?out = "update_loop e ?ns ([], bc)"
  have r: "map fst (fst ?out) = ?ns" using loop_result_keys[OF assms, of "[]" e bc] by simp
  have k: "map fst (registered_bots (snd ?out)) = ?ns" by (rule loop_keys)
  have s: "status cfg = ''active'' \<and> last_update cfg = Some (now_iso e)"
    if m: "(b, cfg) \<in> set (registered_bots (snd ?out))" for b cfg
  proof -
    have d: "distinct (map fst (registered_bots (snd ?out)))" using k assms by simp
    from m have "map_of (registered_bots (snd ?out)) b = Some cfg"
      using d by (simp add: map_of_eq_Some_iff)
    moreover have "b \<in> set ?ns" using m k by (metis fst_conv image_eqI list.set_map)
    then have "\<exists>c. map_of (registered_bots (snd ?out)) b = Some c \<and> status c = ''active'' \<and>
        last_update c = Some (now_iso e)"
      using loop_status[of b ?ns bc e "[]"] assms by simp
    ultimately show ?thesis by auto
  qed
  have i: "map_of (fst ?out) b = Some (ingests e bc b)" if "b \<in> set ?ns" for b
    using loop_result[OF that assms] .
  have f: "map_of (fst ?out) b = Some False" if "fetch_fails e bc b" for b
    using i[OF fetch_fails_registered[OF that]] fetch_fails_ingests[OF that] by simp
  have p: "portfolio (snd ?out) = ingest_all e bc ?ns"
    unfolding ingest_all_def by (rule loop_portfolio)
  show ?thesis unfolding update_all_bots_def using r k s f i p by auto
qed

theorem update_all_bots_outcome_witness:
  "distinct (map fst (registered_bots three_bots)) \<and>
   fetch_fails feeds three_bots ''bot2'' \<and>
   map fst (fst (update_all_bots feeds three_bots)) = [''bot1'', ''bot2'', ''bot3''] \<and>
   map fst (registered_bots (snd (update_all_bots feeds three_bots))) =
     [''bot1'', ''bot2'', ''bot3''] \<and>
   map_of (fst (update_all_bots feeds three_bots)) ''bot2'' = Some False \<and>
   fetch_bot_trades feeds three_bots ''bot1'' = [buy1000] \<and>
   accepted feeds buy1000 \<and>
   map_of (fst (update_all_bots feeds three_bots)) ''bot1'' = Some True \<and>
   map_of (fst (update_all_bots feeds three_bots)) ''bot3'' = Some True \<and>
   worksheet (portfolio (snd (update_all_bots feeds three_bots))) ''Wallet_Arbitrage'' =
     new_wallet ''Wallet_Arbitrage'' @
        [[Str ''2024-01-01'', Str ''BUY'', Str ''BTC'', Num 1, Num 1000, Num 1000,
          Str (calculate_running_balance_formula 6), Blank]] \<and>
   worksheet (portfolio (snd (update_all_bots feeds three_bots))) ''Wallet_DCA'' =
     new_wallet ''Wallet_DCA'' \<and>
   map (\<lambda>(b, cfg). (b, status cfg)) (registered_bots (snd (update_all_bots feeds three_bots))) =
     [(''bot1'', ''active''), (''bot2'', ''active''), (''bot3'', ''active'')]"
proof -
  have k: "map fst (registered_bots three_bots) = [''bot1'', ''bot2'', ''bot3'']"
    by (simp add: three_bots_registered)
  have d: "distinct (map fst (registered_bots three_bots))" unfolding k by simp
  note t = update_all_bots_outcome[OF d, of feeds]
  have t1: "map fst (fst (update_all_bots feeds three_bots)) = [''bot1'', ''bot2'', ''bot3'']"
    using t[THEN conjunct1] unfolding k .
  have t2: "map fst (registered_bots (snd (update_all_bots feeds three_bots))) =
     [''bot1'', ''bot2'', ''bot3'']"
    using t[THEN conjunct2, THEN conjunct1] unfolding k .
  have t4: "map_of (fst (update_all_bots feeds three_bots)) ''bot2'' = Some False"
    using t[THEN conjunct2, THEN conjunct2, THEN conjunct2, THEN conjunct1] three_bots_fails
    by blast
  note t5 = t[THEN conjunct2, THEN conjunct2, THEN conjunct2, THEN conjunct2, THEN conjunct1,
      unfolded k]
  have m: "''bot1'' \<in> set [''bot1'', ''bot2'', ''bot3'']" "''bot3'' \<in> set [''bot1'', ''bot2'', ''bot3'']"
    by simp_all
  have "map_of (fst (update_all_bots feeds three_bots)) ''bot1'' =
      Some (ingests feeds three_bots ''bot1'')"
    using t5 m(1) by (rule bspec)
  then have r1: "map_of (fst (update_all_bots feeds three_bots)) ''bot1'' = Some True"
    using three_bots_ingests(1) by simp
  have "map_of (fst (update_all_bots feeds three_bots)) ''bot3'' =
      Some (ingests feeds three_bots ''bot3'')"
    using t5 m(2) by (rule bspec)
  then have r3: "map_of (fst (update_all_bots feeds three_bots)) ''bot3'' = Some True"
    using three_bots_ingests(3) by simp
  note t6 = t[THEN conjunct2, THEN conjunct2, THEN conjunct2, THEN conjunct2, THEN conjunct2,
      unfolded k]
  have w1: "worksheet (portfolio (snd (update_all_bots feeds three_bots))) ''Wallet_Arbitrage'' =
     new_wallet ''Wallet_Arbitrage'' @
        [[Str ''2024-01-01'', Str ''BUY'', Str ''BTC'', Num 1, Num 1000, Num 1000,
          Str (calculate_running_balance_formula 6), Blank]]"
    unfolding t6 new_wallet_eq by (rule three_bots_ingested(1))
  have w2: "worksheet (portfolio (snd (update_all_bots feeds three_bots))) ''Wallet_DCA'' =
     new_wallet ''Wallet_DCA''"
    unfolding t6 new_wallet_eq by (rule three_bots_ingested(2))
  show ?thesis
    by (intro conjI)
       (fact d three_bots_fails t1 t2 t4 three_bots_fetch(1) sample_accepted(1) r1 r3 w1 w2
          three_bots_statuses)+
qed

text \<open>
  C2, the claim as stated fails: with three bots of which the second cannot be reached,
  the results are \<open>True\<close>, \<open>False\<close>, \<open>True\<close>, and the status of the second bot is
  \<open>active\<close>, not \<open>error\<close>.
\<close>

theorem update_all_bots_outcome_counterexample:
  "fetch_fails feeds three_bots ''bot2'' \<and>
   fst (update_all_bots feeds three_bots) = [(''bot1'', True), (''bot2'', False), (''bot3'', True)] \<and>
   map (\<lambda>(b, cfg). (b, status cfg)) (registered_bots (snd (update_all_bots feeds three_bots))) =
     [(''bot1'', ''active''), (''bot2'', ''active''), (''bot3'', ''active'')] \<and>
   ''active'' \<noteq> ''error''"
  using three_bots_fails three_bots_results three_bots_statuses by simp

end
